theory Spec2Isabelle
  imports Main "HOL-Library.Word"
begin

unbundle bit_operations_syntax

section \<open>Basic types\<close>

type_synonym uint256 = "256 word"
type_synonym uint32_t = "32 word"
type_synonym CAmount = "64 word"

section \<open>The legacy shielded stake input (legacy\_zpos.h)\<close>

text \<open>
  The class \<open>CLegacyZFlsStake\<close> has three private fields. The denomination enum of
  libzerocoin, the wallet, the transaction input and the transaction output are
  declared elsewhere, so they stay type parameters: the three operations below
  never look at them.
\<close>

record 'd CLegacyZFlsStake =
  nChecksum :: uint32_t
  denom :: 'd
  hashSerial :: uint256

text \<open>
  \<open>bool CreateTxIn(CWallet* pwallet, CTxIn& txIn, uint256 hashTxOut) { return false; }\<close>
  The wallet pointer may be null (\<open>None\<close>); \<open>txIn\<close> is passed by reference, so the
  model returns it next to the result, untouched.
\<close>

definition CreateTxIn ::
  "'d CLegacyZFlsStake \<Rightarrow> 'w option \<Rightarrow> 'i \<Rightarrow> uint256 \<Rightarrow> bool \<times> 'i" where
  "CreateTxIn this pwallet txIn hashTxOut = (False, txIn)"

text \<open>
  \<open>bool CreateTxOuts(CWallet* pwallet, std::vector<CTxOut>& vout, CAmount nTotal,
  const bool onlyP2PK) { return false; }\<close>
\<close>

definition CreateTxOuts ::
  "'d CLegacyZFlsStake \<Rightarrow> 'w option \<Rightarrow> 'o list \<Rightarrow> CAmount \<Rightarrow> bool \<Rightarrow> bool \<times> 'o list" where
  "CreateTxOuts this pwallet vout nTotal onlyP2PK = (False, vout)"

text \<open>\<open>bool GetTxOutFrom(CTxOut& out) const { return false; }\<close>\<close>

definition GetTxOutFrom :: "'d CLegacyZFlsStake \<Rightarrow> 'o \<Rightarrow> bool \<times> 'o" where
  "GetTxOutFrom this txOut = (False, txOut)"

text \<open>\<open>bool IsZFLS() const { return true; }\<close> and the checksum getter.\<close>

definition IsZFLS :: "'d CLegacyZFlsStake \<Rightarrow> bool" where
  "IsZFLS this = True"

definition GetChecksum :: "'d CLegacyZFlsStake \<Rightarrow> uint32_t" where
  "GetChecksum this = nChecksum this"

section \<open>Lifecycle of the quorum subsystem (llmq/quorums\_init.cpp)\<close>

text \<open>
  \<open>blsWorker\<close> is a raw pointer at namespace scope, so it starts as the null pointer.
  The model keeps the free store of \<open>CBLSWorker\<close> objects explicitly: an address is
  live while \<open>workers\<close> maps it to an object, and \<open>brk\<close> is the next address that
  \<open>new\<close> hands out. Of a worker only whether it has been started is kept.
  \<open>quorumBlockProcessor\<close> is a \<open>unique_ptr\<close>; it holds the database reference it was
  built from, or nothing.
\<close>

record CBLSWorker =
  running :: bool

record 'e llmq =
  blsWorker :: "nat option"
  workers :: "nat \<rightharpoonup> CBLSWorker"
  brk :: nat
  quorumBlockProcessor :: "'e option"

definition llmq_initial :: "'e llmq" where
  "llmq_initial = \<lparr>blsWorker = None, workers = Map.empty, brk = 0, quorumBlockProcessor = None\<rparr>"

text \<open>
  Every operation returns \<open>None\<close> when it would touch memory it must not: a method
  call through a null pointer or through a pointer to a deleted object, or the
  \<open>delete\<close> of an object that is no longer live. \<open>delete\<close> of the null pointer does
  nothing.
\<close>

definition InitLLMQSystem :: "'e \<Rightarrow> 'e llmq \<Rightarrow> 'e llmq option" where
  "InitLLMQSystem evoDb s =
     Some (s\<lparr>blsWorker := Some (brk s),
             workers := (workers s)(brk s \<mapsto> \<lparr>running = False\<rparr>),
             brk := Suc (brk s),
             quorumBlockProcessor := Some evoDb\<rparr>)"

definition delete_worker :: "nat option \<Rightarrow> (nat \<rightharpoonup> CBLSWorker) \<Rightarrow> (nat \<rightharpoonup> CBLSWorker) option" where
  "delete_worker p h =
     (case p of
        None \<Rightarrow> Some h
      | Some a \<Rightarrow> (case h a of None \<Rightarrow> None | Some w \<Rightarrow> Some (h(a := None))))"

definition DestroyLLMQSystem :: "'e llmq \<Rightarrow> 'e llmq option" where
  "DestroyLLMQSystem s =
     (case delete_worker (blsWorker s) (workers s) of
        None \<Rightarrow> None
      | Some h \<Rightarrow> Some (s\<lparr>quorumBlockProcessor := None, workers := h, blsWorker := None\<rparr>))"

definition call_worker :: "bool \<Rightarrow> nat \<Rightarrow> (nat \<rightharpoonup> CBLSWorker) \<Rightarrow> (nat \<rightharpoonup> CBLSWorker) option" where
  "call_worker r a h =
     (case h a of None \<Rightarrow> None | Some w \<Rightarrow> Some (h(a \<mapsto> w\<lparr>running := r\<rparr>)))"

definition StartLLMQSystem :: "'e llmq \<Rightarrow> 'e llmq option" where
  "StartLLMQSystem s =
     (case blsWorker s of
        None \<Rightarrow> Some s
      | Some a \<Rightarrow> (case call_worker True a (workers s) of
                     None \<Rightarrow> None
                   | Some h \<Rightarrow> Some (s\<lparr>workers := h\<rparr>)))"

definition StopLLMQSystem :: "'e llmq \<Rightarrow> 'e llmq option" where
  "StopLLMQSystem s =
     (case blsWorker s of
        None \<Rightarrow> Some s
      | Some a \<Rightarrow> (case call_worker False a (workers s) of
                     None \<Rightarrow> None
                   | Some h \<Rightarrow> Some (s\<lparr>workers := h\<rparr>)))"

datatype 'e llmq_call = Init 'e | Destroy | Start | Stop

fun llmq_do :: "'e llmq_call \<Rightarrow> 'e llmq \<Rightarrow> 'e llmq option" where
  "llmq_do (Init evoDb) s = InitLLMQSystem evoDb s"
| "llmq_do Destroy s = DestroyLLMQSystem s"
| "llmq_do Start s = StartLLMQSystem s"
| "llmq_do Stop s = StopLLMQSystem s"

fun llmq_run :: "'e llmq_call list \<Rightarrow> 'e llmq \<Rightarrow> 'e llmq option" where
  "llmq_run [] s = Some s"
| "llmq_run (c # cs) s = (case llmq_do c s of None \<Rightarrow> None | Some s' \<Rightarrow> llmq_run cs s')"

text \<open>The invariant that makes every call safe: a non-null \<open>blsWorker\<close> points to a live object.\<close>

definition worker_live :: "'e llmq \<Rightarrow> bool" where
  "worker_live s = (case blsWorker s of None \<Rightarrow> True | Some a \<Rightarrow> workers s a \<noteq> None)"

section \<open>Coins, the transaction pool and the chain\<close>

text \<open>
  An outpoint is a transaction id and an output index (the field \<open>n\<close> of the source
  is called \<open>nIndex\<close> here). An output is an amount and a script; a coin is an unspent
  output with the height it was confirmed at and its coinbase and coinstake flags.
\<close>

record COutPoint =
  hash :: uint256
  nIndex :: uint32_t

record CTxOut =
  nValue :: CAmount
  scriptPubKey :: "8 word list"

record Coin =
  out :: CTxOut
  fCoinBase :: bool
  fCoinStake :: bool
  nHeight :: uint32_t

text \<open>
  \<open>struct CCoin\<close> of rest.cpp: the constructor \<open>CCoin(Coin&& in)\<close> copies the height
  and the output.
\<close>

record CCoin =
  nHeight :: uint32_t
  out :: CTxOut

definition CCoin_of :: "Coin \<Rightarrow> CCoin" where
  "CCoin_of c = \<lparr>nHeight = Coin.nHeight c, out = Coin.out c\<rparr>"

text \<open>
  Modelled from the spec: the transaction pool (txmempool.h is not under src/). A
  pooled transaction is its id, the outpoints it consumes and the outputs it
  produces. \<open>isSpent\<close> says whether the pool records an outpoint as consumed by a
  pooled transaction.
\<close>

record CTransaction =
  txid :: uint256
  vin :: "COutPoint list"
  vout :: "CTxOut list"

definition mempool_get :: "CTransaction list \<Rightarrow> uint256 \<Rightarrow> CTransaction option" where
  "mempool_get pool h = List.find (\<lambda>tx. txid tx = h) pool"

definition isSpent :: "CTransaction list \<Rightarrow> COutPoint \<Rightarrow> bool" where
  "isSpent pool outpoint = list_ex (\<lambda>tx. outpoint \<in> set (vin tx)) pool"

section \<open>Coin views\<close>

text \<open>
  Modelled from the spec: the coin view classes (coins.h, coins.cpp and txmempool.cpp
  are not under src/). A cache entry is a coin or the spent marker (\<open>None\<close>) with the
  dirty and fresh flags. A coin source answers \<open>GetCoin\<close> and may update the state
  \<open>'s\<close> of the objects it reads through, since a cache fills itself on a miss.
\<close>

record CCoinsCacheEntry =
  coin :: "Coin option"
  DIRTY :: bool
  FRESH :: bool

type_synonym CCoinsMap = "COutPoint \<rightharpoonup> CCoinsCacheEntry"

type_synonym 's coin_source = "COutPoint \<Rightarrow> 's \<Rightarrow> Coin option \<times> 's"

text \<open>
  Modelled from the spec: a \<open>CCoinsView\<close> object that is constructed with no parent
  and no store, as \<open>viewDummy\<close> is in rest.cpp, has nothing to answer from: every
  lookup misses.
\<close>

definition CCoinsView_GetCoin :: "'s coin_source" where
  "CCoinsView_GetCoin outpoint s = (None, s)"

text \<open>
  Modelled from the spec: the backing store is a key-value table from outpoints to
  coin records; a record is there iff the output is unspent. Reading leaves it as
  it is.
\<close>

definition CCoinsViewDB_GetCoin :: "(COutPoint \<rightharpoonup> Coin) coin_source" where
  "CCoinsViewDB_GetCoin outpoint db = (db outpoint, db)"

text \<open>
  Modelled from the spec (section 4.1): \<open>GetCoin\<close> of a cache checks the local cache
  first; on a miss it asks the parent and, when the parent has the coin, stores it
  as an entry that is neither dirty nor fresh.
\<close>

definition CCoinsViewCache_GetCoin :: "'s coin_source \<Rightarrow> (CCoinsMap \<times> 's) coin_source" where
  "CCoinsViewCache_GetCoin base_GetCoin outpoint = (\<lambda>(cache, s).
     case cache outpoint of
       Some e \<Rightarrow> (coin e, (cache, s))
     | None \<Rightarrow>
         (case base_GetCoin outpoint s of
            (None, s') \<Rightarrow> (None, (cache, s'))
          | (Some c, s') \<Rightarrow>
              (Some c, (cache(outpoint \<mapsto> \<lparr>coin = Some c, DIRTY = False, FRESH = False\<rparr>), s'))))"

text \<open>
  Modelled from the spec (section 4.2): the pool overlay first checks the pool. An
  outpoint produced by a pooled transaction is answered with a synthesized coin at
  the sentinel height, without asking the parent, and reported unspent unless the
  pool records it as consumed; any other outpoint goes to the parent.
\<close>

definition CCoinsViewMemPool_GetCoin ::
  "uint32_t \<Rightarrow> CTransaction list \<Rightarrow> 's coin_source \<Rightarrow> 's coin_source" where
  "CCoinsViewMemPool_GetCoin sentinel pool base_GetCoin outpoint s =
     (case mempool_get pool (hash outpoint) of
        Some tx \<Rightarrow>
          if unat (nIndex outpoint) < length (vout tx)
          then (if isSpent pool outpoint then None
                else Some \<lparr>Coin.out = vout tx ! unat (nIndex outpoint), fCoinBase = False,
                           fCoinStake = False, Coin.nHeight = sentinel\<rparr>, s)
          else base_GetCoin outpoint s
      | None \<Rightarrow> base_GetCoin outpoint s)"

text \<open>
  The authoritative stack is the cache \<open>*pcoinsTip\<close> in front of the backing store:
  its state is the pair of the cache's entries and the store.
\<close>

type_synonym coins_stack = "CCoinsMap \<times> (COutPoint \<rightharpoonup> Coin)"

definition pcoinsTip_GetCoin :: "coins_stack coin_source" where
  "pcoinsTip_GetCoin = CCoinsViewCache_GetCoin CCoinsViewDB_GetCoin"

section \<open>The REST interface (rest.cpp): formats, replies and helpers\<close>

definition MAX_GETUTXOS_OUTPOINTS :: nat where
  "MAX_GETUTXOS_OUTPOINTS = 15"

datatype RetFormat = RF_UNDEF | RF_BINARY | RF_HEX | RF_JSON

definition rf_names :: "(RetFormat \<times> string) list" where
  "rf_names = [(RF_UNDEF, ''''), (RF_BINARY, ''bin''), (RF_HEX, ''hex''), (RF_JSON, ''json'')]"

datatype HTTPStatusCode =
  HTTP_OK | HTTP_BAD_REQUEST | HTTP_NOT_FOUND | HTTP_INTERNAL_SERVER_ERROR
  | HTTP_SERVICE_UNAVAILABLE

text \<open>What a handler leaves in the request object: one header and the reply.\<close>

record HTTPReply =
  content_type :: string
  status :: HTTPStatusCode
  content :: string

definition CRLF :: string where
  "CRLF = [CHR 0x0D, CHR 0x0A]"

definition RESTERR :: "HTTPStatusCode \<Rightarrow> string \<Rightarrow> bool \<times> HTTPReply" where
  "RESTERR st message =
     (False, \<lparr>content_type = ''text/plain'', status = st, content = message @ CRLF\<rparr>)"

text \<open>
  \<open>boost::split(result, input, boost::is_any_of(sep))\<close> for a single separator: the
  fields between the separators, empty ones included; the empty input has one
  empty field.
\<close>

fun split :: "char \<Rightarrow> string \<Rightarrow> string list" where
  "split sep [] = [[]]"
| "split sep (c # cs) =
     (if c = sep then [] # split sep cs
      else (case split sep cs of [] \<Rightarrow> [[c]] | w # ws \<Rightarrow> (c # w) # ws))"

definition ParseDataFormat :: "string \<Rightarrow> string list \<times> RetFormat" where
  "ParseDataFormat strReq =
     (let params = split CHR ''.'' strReq
      in (params,
          if length params > 1
          then (case List.find (\<lambda>(rf, name). params ! 1 = name) rf_names of
                  Some (rf, name) \<Rightarrow> rf
                | None \<Rightarrow> fst (rf_names ! 0))
          else fst (rf_names ! 0)))"

definition AvailableDataFormatsString :: string where
  "AvailableDataFormatsString =
     (let formats = concat (map (\<lambda>(rf, name). if length name > 0 then ''.'' @ name @ '', '' else [])
                                rf_names)
      in if length formats > 0 then take (length formats - 2) formats else formats)"

text \<open>
  \<open>std::string::find\<close> and \<open>substr\<close> on 64-bit sizes: \<open>find\<close> gives \<open>npos\<close>, the
  largest value, when the character is absent, and \<open>npos + 1\<close> wraps to 0. A
  length of \<open>npos\<close> means up to the end of the string.
  \<open>substr\<close> throws when the start lies beyond the end; the handler only calls it
  with a start of 0, of 1 on a string longer than 1, or of the position after a
  character that was found.
\<close>

definition npos :: "64 word" where
  "npos = - 1"

definition str_find :: "string \<Rightarrow> char \<Rightarrow> 64 word" where
  "str_find s c =
     (if c \<in> set s then of_nat (length (takeWhile (\<lambda>x. x \<noteq> c) s)) else npos)"

definition substr :: "string \<Rightarrow> 64 word \<Rightarrow> 64 word \<Rightarrow> string" where
  "substr s pos len =
     (if len = npos then drop (unat pos) s else take (unat len) (drop (unat pos) s))"

text \<open>\<open>strprintf\<close> with \<open>%d\<close>: a number in decimal.\<close>

fun dec :: "nat \<Rightarrow> string" where
  "dec k = (if k < 10 then [''0123456789'' ! k]
            else dec (k div 10) @ [''0123456789'' ! (k mod 10)])"

declare dec.simps [simp del]

text \<open>JSON values as built with \<open>UniValue\<close>: numbers, strings, arrays and objects.\<close>

datatype UniValue =
  VNUM int | VSTR string | VARR "UniValue list" | VOBJ "(string \<times> UniValue) list"

text \<open>
  The string, hex, serialization and JSON helpers the handler calls are declared
  in headers that are not under src/ (utilstrencodings.h, uint256.h, serialize.h,
  streams.h, core\_io.h, univalue.h, txmempool.h). The handler is modelled for
  any such helpers: they are the fields of this record.
  \<^item> \<open>ParseInt32\<close> gives the parsed 32-bit value or fails; \<open>IsHex\<close> tests a string;
    \<open>SetHex\<close> and \<open>GetHex\<close> convert a 256-bit value; \<open>ParseHex\<close> and \<open>HexStr\<close>
    convert bytes.
  \<^item> \<open>Serialize_string\<close> is \<open>oss << strRequestMutable\<close>; \<open>Unserialize_bool\<close> and
    \<open>Unserialize_vOutPoints\<close> are the two reads \<open>oss >> fCheckMemPool\<close> and
    \<open>oss >> vOutPoints\<close>: each gives the value and the rest of the stream, or
    \<open>None\<close> when it throws \<open>std::ios_base::failure\<close>.
  \<^item> \<open>Serialize_int\<close>, \<open>Serialize_uint32\<close>, \<open>Serialize_uint256\<close>, \<open>Serialize_bytes\<close>
    and \<open>Serialize_CTxOut\<close> are \<open><<\<close> at these types, and \<open>Serialize_vector\<close> is \<open><<\<close>
    for a vector of \<open>CCoin\<close>, given how one element is written.
  \<^item> \<open>MEMPOOL_HEIGHT\<close> is the sentinel height of a coin that is only in the pool.
\<close>

record helpers =
  ParseInt32 :: "string \<Rightarrow> int option"
  IsHex :: "string \<Rightarrow> bool"
  SetHex :: "string \<Rightarrow> uint256"
  GetHex :: "uint256 \<Rightarrow> string"
  ParseHex :: "string \<Rightarrow> string"
  HexStr :: "string \<Rightarrow> string"
  Serialize_string :: "string \<Rightarrow> string"
  Unserialize_bool :: "string \<Rightarrow> (bool \<times> string) option"
  Unserialize_vOutPoints :: "string \<Rightarrow> (COutPoint list \<times> string) option"
  Serialize_int :: "32 word \<Rightarrow> string"
  Serialize_uint32 :: "uint32_t \<Rightarrow> string"
  Serialize_uint256 :: "uint256 \<Rightarrow> string"
  Serialize_bytes :: "8 word list \<Rightarrow> string"
  Serialize_CTxOut :: "CTxOut \<Rightarrow> string"
  Serialize_vector :: "(CCoin \<Rightarrow> string) \<Rightarrow> CCoin list \<Rightarrow> string"
  ValueFromAmount :: "CAmount \<Rightarrow> UniValue"
  ScriptPubKeyToUniv :: "8 word list \<Rightarrow> bool \<Rightarrow> UniValue"
  UniValue_write :: "UniValue \<Rightarrow> string"
  MEMPOOL_HEIGHT :: uint32_t

text \<open>
  The state of the node that the handler reads: whether the RPC server is still
  warming up (and its status message), the height and the block hash of the tip of
  the active chain (\<open>None\<close> when \<open>Tip()\<close> is the null pointer), the backing store,
  the entries of the cache \<open>*pcoinsTip\<close>, and the pool.
\<close>

record node =
  RPCIsInWarmup :: "string option"
  chainActive_Height :: "32 word"
  chainActive_Tip :: "uint256 option"
  pcoinsdbview :: "COutPoint \<rightharpoonup> Coin"
  pcoinsTip :: CCoinsMap
  mempool :: "CTransaction list"

definition CheckWarmup :: "node \<Rightarrow> (bool \<times> HTTPReply) option" where
  "CheckWarmup st =
     (case RPCIsInWarmup st of
        Some statusmessage \<Rightarrow>
          Some (RESTERR HTTP_SERVICE_UNAVAILABLE
                  (''Service temporarily unavailable: '' @ statusmessage))
      | None \<Rightarrow> None)"

section \<open>The REST interface (rest.cpp): \<open>rest_getutxos\<close>\<close>

subsection \<open>Reading the request (lines 374 to 456)\<close>

text \<open>
  Lines 377 to 382: the part of the URI before the first dot, without its leading
  slash, is split at the slashes.
\<close>

definition uriParts_of :: "string list \<Rightarrow> string list" where
  "uriParts_of params =
     (if length params > 0 \<and> length (params ! 0) > 1
      then split CHR ''/'' (substr (params ! 0) 1 npos)
      else [])"

text \<open>
  Lines 401 to 413: the loop over the URI parts. Each part is cut at its first
  dash into a transaction id and an output index; the first part that fails
  \<open>ParseInt32\<close> or \<open>IsHex\<close> ends the handler with a parse error (\<open>None\<close>).
  The index is cast from \<open>int32_t\<close> to \<open>uint32_t\<close>.
\<close>

fun parse_uriParts :: "helpers \<Rightarrow> string list \<Rightarrow> COutPoint list \<Rightarrow> COutPoint list option" where
  "parse_uriParts h [] vOutPoints = Some vOutPoints"
| "parse_uriParts h (part # rest) vOutPoints =
     (let strTxid = substr part 0 (str_find part CHR ''-'');
          strOutput = substr part (str_find part CHR ''-'' + 1) npos
      in case ParseInt32 h strOutput of
           None \<Rightarrow> None
         | Some nOutput \<Rightarrow>
             if \<not> IsHex h strTxid then None
             else parse_uriParts h rest
                    (vOutPoints @ [\<lparr>hash = SetHex h strTxid, nIndex = word_of_int nOutput\<rparr>]))"

text \<open>
  Lines 396 to 419. The result is an error reply, or \<open>fInputParsed\<close>,
  \<open>fCheckMemPool\<close> and \<open>vOutPoints\<close> as they stand before the \<open>switch\<close>.
\<close>

definition getutxos_uri ::
  "helpers \<Rightarrow> string list \<Rightarrow> (bool \<times> HTTPReply) + (bool \<times> bool \<times> COutPoint list)" where
  "getutxos_uri h uriParts =
     (if length uriParts > 0
      then (let fCheckMemPool = (uriParts ! 0 = ''checkmempool'')
            in case parse_uriParts h (drop (if fCheckMemPool then 1 else 0) uriParts) [] of
                 None \<Rightarrow> Inl (RESTERR HTTP_INTERNAL_SERVER_ERROR ''Parse error'')
               | Some vOutPoints \<Rightarrow>
                   if length vOutPoints > 0 then Inr (True, fCheckMemPool, vOutPoints)
                   else Inl (RESTERR HTTP_INTERNAL_SERVER_ERROR ''Error: empty request''))
      else Inr (False, False, []))"

text \<open>
  Lines 428 to 446, the case \<open>RF_BINARY\<close>, which the case \<open>RF_HEX\<close> falls into
  after it has replaced the body by its hex decoding. The result is an error
  reply, or \<open>fCheckMemPool\<close> and \<open>vOutPoints\<close>.
\<close>

definition getutxos_raw ::
  "helpers \<Rightarrow> string \<Rightarrow> bool \<Rightarrow> bool \<Rightarrow> COutPoint list
   \<Rightarrow> (bool \<times> HTTPReply) + (bool \<times> COutPoint list)" where
  "getutxos_raw h strRequestMutable fInputParsed fCheckMemPool vOutPoints =
     (if length strRequestMutable > 0
      then (if fInputParsed
            then Inl (RESTERR HTTP_INTERNAL_SERVER_ERROR
                        ''Combination of URI scheme inputs and raw post data is not allowed'')
            else (case Unserialize_bool h (Serialize_string h strRequestMutable) of
                    None \<Rightarrow> Inl (RESTERR HTTP_INTERNAL_SERVER_ERROR ''Parse error'')
                  | Some (fCheckMemPool', oss) \<Rightarrow>
                      (case Unserialize_vOutPoints h oss of
                         None \<Rightarrow> Inl (RESTERR HTTP_INTERNAL_SERVER_ERROR ''Parse error'')
                       | Some (vOutPoints', oss') \<Rightarrow> Inr (fCheckMemPool', vOutPoints'))))
      else Inr (fCheckMemPool, vOutPoints))"

text \<open>Lines 421 to 456: the \<open>switch\<close> over the format.\<close>

definition getutxos_switch ::
  "helpers \<Rightarrow> RetFormat \<Rightarrow> string \<Rightarrow> bool \<Rightarrow> bool \<Rightarrow> COutPoint list
   \<Rightarrow> (bool \<times> HTTPReply) + (bool \<times> COutPoint list)" where
  "getutxos_switch h rf strRequestMutable fInputParsed fCheckMemPool vOutPoints =
     (case rf of
        RF_HEX \<Rightarrow>
          getutxos_raw h (ParseHex h strRequestMutable) fInputParsed fCheckMemPool vOutPoints
      | RF_BINARY \<Rightarrow>
          getutxos_raw h strRequestMutable fInputParsed fCheckMemPool vOutPoints
      | RF_JSON \<Rightarrow>
          if \<not> fInputParsed
          then Inl (RESTERR HTTP_INTERNAL_SERVER_ERROR ''Error: empty request'')
          else Inr (fCheckMemPool, vOutPoints)
      | RF_UNDEF \<Rightarrow>
          Inl (RESTERR HTTP_NOT_FOUND
                 (''output format not found (available: '' @ AvailableDataFormatsString @ '')'')))"

text \<open>
  Lines 374 to 456 together, after the warm-up check: from the URI part and the
  body to an error reply or to the format, \<open>fCheckMemPool\<close> and \<open>vOutPoints\<close>.
\<close>

definition getutxos_request ::
  "helpers \<Rightarrow> string \<Rightarrow> string
   \<Rightarrow> (bool \<times> HTTPReply) + (RetFormat \<times> bool \<times> COutPoint list)" where
  "getutxos_request h strURIPart body =
     (case ParseDataFormat strURIPart of
        (params, rf) \<Rightarrow>
          (let uriParts = uriParts_of params
           in if length body = 0 \<and> length uriParts = 0
              then Inl (RESTERR HTTP_INTERNAL_SERVER_ERROR ''Error: empty request'')
              else (case getutxos_uri h uriParts of
                      Inl e \<Rightarrow> Inl e
                    | Inr (fInputParsed, fCheckMemPool, vOutPoints) \<Rightarrow>
                        (case getutxos_switch h rf body fInputParsed fCheckMemPool vOutPoints of
                           Inl e \<Rightarrow> Inl e
                         | Inr (fCheckMemPool', vOutPoints') \<Rightarrow>
                             Inr (rf, fCheckMemPool', vOutPoints')))))"

subsection \<open>Looking the outpoints up (lines 462 to 492)\<close>

text \<open>
  The local cache \<open>view\<close> is built over \<open>viewDummy\<close>; \<open>SetBackend\<close> can point it at
  \<open>viewMempool\<close>, the pool overlay that was built over \<open>viewChain\<close>, which is
  \<open>*pcoinsTip\<close>. A parent pointer of \<open>view\<close> is one of these two local objects.
\<close>

datatype view_ptr = viewDummy | viewMempool

record CCoinsViewCache =
  base :: view_ptr
  cacheCoins :: CCoinsMap

definition SetBackend :: "view_ptr \<Rightarrow> CCoinsViewCache \<Rightarrow> CCoinsViewCache" where
  "SetBackend viewIn this = this\<lparr>base := viewIn\<rparr>"

text \<open>
  \<open>view.GetCoin\<close>: the cache lookup of \<open>view\<close>, with the miss going through its
  parent pointer. The state is \<open>view\<close> itself and the authoritative stack, which
  the pool overlay reads through.
\<close>

definition view_GetCoin ::
  "helpers \<Rightarrow> CTransaction list \<Rightarrow> (CCoinsViewCache \<times> coins_stack) coin_source" where
  "view_GetCoin h pool outpoint = (\<lambda>(v, chain).
     case (case base v of
             viewDummy \<Rightarrow>
               CCoinsViewCache_GetCoin CCoinsView_GetCoin outpoint (cacheCoins v, chain)
           | viewMempool \<Rightarrow>
               CCoinsViewCache_GetCoin
                 (CCoinsViewMemPool_GetCoin (MEMPOOL_HEIGHT h) pool pcoinsTip_GetCoin)
                 outpoint (cacheCoins v, chain))
     of (r, (c, chain')) \<Rightarrow> (r, (v\<lparr>cacheCoins := c\<rparr>, chain')))"

text \<open>
  The local variables of this part of the handler. \<open>lookups\<close> is not a variable of
  the source: it records the arguments of the calls of \<open>view.GetCoin\<close>, in order.
\<close>

record getutxos_locals =
  bitmap :: "8 word list"
  outs :: "CCoin list"
  bitmapStringRepresentation :: string
  hits :: "bool list"
  view :: CCoinsViewCache
  viewChain :: coins_stack
  lookups :: "COutPoint list"

text \<open>
  Lines 481 to 490: the body of the loop, for the outpoint at index \<open>i\<close>. The
  handler sizes \<open>bitmap\<close> so that \<open>i / 8\<close> is always inside it.
\<close>

definition getutxos_body ::
  "helpers \<Rightarrow> CTransaction list \<Rightarrow> COutPoint \<Rightarrow> nat \<Rightarrow> getutxos_locals \<Rightarrow> getutxos_locals" where
  "getutxos_body h pool outpoint i L =
     (case view_GetCoin h pool outpoint (view L, viewChain L) of
        (r, (view', chain')) \<Rightarrow>
          (let hit = (r \<noteq> None \<and> \<not> isSpent pool outpoint)
           in L\<lparr>bitmap := (bitmap L)[i div 8 :=
                            (bitmap L ! (i div 8)) OR push_bit (i mod 8) (if hit then 1 else 0)],
                outs := (case r of
                           Some c \<Rightarrow> if \<not> isSpent pool outpoint then outs L @ [CCoin_of c] else outs L
                         | None \<Rightarrow> outs L),
                bitmapStringRepresentation :=
                  bitmapStringRepresentation L @ (if hit then ''1'' else ''0''),
                hits := hits L @ [hit],
                view := view',
                viewChain := chain',
                lookups := lookups L @ [outpoint]\<rparr>))"

text \<open>Lines 480 to 491: the loop, with \<open>i\<close> the index of the first outpoint that is left.\<close>

fun getutxos_loop ::
  "helpers \<Rightarrow> CTransaction list \<Rightarrow> COutPoint list \<Rightarrow> nat \<Rightarrow> getutxos_locals \<Rightarrow> getutxos_locals" where
  "getutxos_loop h pool [] i L = L"
| "getutxos_loop h pool (outpoint # rest) i L =
     getutxos_loop h pool rest (Suc i) (getutxos_body h pool outpoint i L)"

definition getutxos_lookup :: "helpers \<Rightarrow> node \<Rightarrow> bool \<Rightarrow> COutPoint list \<Rightarrow> getutxos_locals" where
  "getutxos_lookup h st fCheckMemPool vOutPoints =
     (let view0 = \<lparr>base = viewDummy, cacheCoins = Map.empty\<rparr>;
          view1 = (if fCheckMemPool then SetBackend viewMempool view0 else view0)
      in getutxos_loop h (mempool st) vOutPoints 0
           \<lparr>bitmap = replicate ((length vOutPoints + 7) div 8) 0,
            outs = [],
            bitmapStringRepresentation = [],
            hits = [],
            view = view1,
            viewChain = (pcoinsTip st, pcoinsdbview st),
            lookups = []\<rparr>)"

subsection \<open>Writing the reply (lines 494 to 549)\<close>

text \<open>\<open>SERIALIZE_METHODS(CCoin, obj)\<close>: a dummy version, the height, the output.\<close>

definition Serialize_CCoin :: "helpers \<Rightarrow> CCoin \<Rightarrow> string" where
  "Serialize_CCoin h obj =
     (let nTxVerDummy = 0
      in Serialize_uint32 h nTxVerDummy @ Serialize_uint32 h (CCoin.nHeight obj)
         @ Serialize_CTxOut h (CCoin.out obj))"

definition ssGetUTXOResponse ::
  "helpers \<Rightarrow> 32 word \<Rightarrow> uint256 \<Rightarrow> 8 word list \<Rightarrow> CCoin list \<Rightarrow> string" where
  "ssGetUTXOResponse h height tip bits coins =
     Serialize_int h height @ Serialize_uint256 h tip @ Serialize_bytes h bits
     @ Serialize_vector h (Serialize_CCoin h) coins"

definition objGetUTXOResponse ::
  "helpers \<Rightarrow> 32 word \<Rightarrow> uint256 \<Rightarrow> string \<Rightarrow> CCoin list \<Rightarrow> UniValue" where
  "objGetUTXOResponse h height tip bitstring coins =
     VOBJ [(''chainHeight'', VNUM (sint height)),
           (''chaintipHash'', VSTR (GetHex h tip)),
           (''bitmap'', VSTR bitstring),
           (''utxos'',
            VARR (map (\<lambda>c. VOBJ [(''height'', VNUM (sint (CCoin.nHeight c))),
                                 (''value'', ValueFromAmount h (nValue (CCoin.out c))),
                                 (''scriptPubKey'',
                                  ScriptPubKeyToUniv h (scriptPubKey (CCoin.out c)) True)])
                      coins))]"

text \<open>
  The result is \<open>None\<close> when the chain has no tip: the source then calls
  \<open>GetBlockHash\<close> through the null pointer.
\<close>

definition getutxos_reply ::
  "helpers \<Rightarrow> node \<Rightarrow> RetFormat \<Rightarrow> getutxos_locals \<Rightarrow> (bool \<times> HTTPReply) option" where
  "getutxos_reply h st rf L =
     (case rf of
        RF_BINARY \<Rightarrow>
          (case chainActive_Tip st of
             None \<Rightarrow> None
           | Some tip \<Rightarrow>
               Some (True, \<lparr>content_type = ''application/octet-stream'', status = HTTP_OK,
                            content = ssGetUTXOResponse h (chainActive_Height st) tip
                                        (bitmap L) (outs L)\<rparr>))
      | RF_HEX \<Rightarrow>
          (case chainActive_Tip st of
             None \<Rightarrow> None
           | Some tip \<Rightarrow>
               Some (True, \<lparr>content_type = ''text/plain'', status = HTTP_OK,
                            content = HexStr h (ssGetUTXOResponse h (chainActive_Height st) tip
                                                  (bitmap L) (outs L)) @ ''\<newline>''\<rparr>))
      | RF_JSON \<Rightarrow>
          (case chainActive_Tip st of
             None \<Rightarrow> None
           | Some tip \<Rightarrow>
               Some (True, \<lparr>content_type = ''application/json'', status = HTTP_OK,
                            content = UniValue_write h
                                        (objGetUTXOResponse h (chainActive_Height st) tip
                                           (bitmapStringRepresentation L) (outs L))
                                      @ ''\<newline>''\<rparr>))
      | RF_UNDEF \<Rightarrow>
          Some (RESTERR HTTP_NOT_FOUND
                  (''output format not found (available: '' @ AvailableDataFormatsString @ '')'')))"

subsection \<open>The handler\<close>

text \<open>
  What a call of the handler leaves behind: the value it returns with the reply it
  wrote (\<open>None\<close> when it ran into the null tip), the coin lookups it made, the
  state of the node, and the locals of the lookup block, \<open>bitmap\<close> among them, when
  the handler got as far as line 463 (\<open>None\<close> when it returned before).
\<close>

record outcome =
  ret :: "(bool \<times> HTTPReply) option"
  coin_lookups :: "COutPoint list"
  after :: node
  built :: "getutxos_locals option"

definition rest_getutxos :: "helpers \<Rightarrow> node \<Rightarrow> string \<Rightarrow> string \<Rightarrow> outcome" where
  "rest_getutxos h st strURIPart body =
     (case CheckWarmup st of
        Some e \<Rightarrow> \<lparr>ret = Some e, coin_lookups = [], after = st, built = None\<rparr>
      | None \<Rightarrow>
         (case getutxos_request h strURIPart body of
            Inl e \<Rightarrow> \<lparr>ret = Some e, coin_lookups = [], after = st, built = None\<rparr>
          | Inr (rf, fCheckMemPool, vOutPoints) \<Rightarrow>
              if length vOutPoints > MAX_GETUTXOS_OUTPOINTS
              then \<lparr>ret = Some (RESTERR HTTP_INTERNAL_SERVER_ERROR
                                  (''Error: max outpoints exceeded (max: ''
                                   @ dec MAX_GETUTXOS_OUTPOINTS @ '', tried: ''
                                   @ dec (length vOutPoints) @ '')'')),
                    coin_lookups = [], after = st, built = None\<rparr>
              else (let L = getutxos_lookup h st fCheckMemPool vOutPoints
                    in \<lparr>ret = getutxos_reply h st rf L,
                        coin_lookups = lookups L,
                        after = st\<lparr>pcoinsTip := fst (viewChain L),
                                   pcoinsdbview := snd (viewChain L)\<rparr>,
                        built = Some L\<rparr>)))"

section \<open>The uniqueness index\<close>

text \<open>
  Modelled from the spec: the Uniqueness Index of section 4.4; none of its code is
  under src/ (the source only declares \<open>GetUniqueness\<close>, which produces the
  fingerprints). The index maps a 256-bit fingerprint to the height of the block
  that recorded it. \<open>Insert\<close> is checked: on a fingerprint that is already present
  it fails, which rejects the block, and leaves the index as it is; otherwise it
  records the fingerprint. \<open>Remove\<close> forgets one fingerprint.
\<close>

type_synonym UniquenessIndex = "uint256 \<rightharpoonup> nat"

definition Contains :: "UniquenessIndex \<Rightarrow> uint256 \<Rightarrow> bool" where
  "Contains idx f = (idx f \<noteq> None)"

definition Insert :: "uint256 \<Rightarrow> nat \<Rightarrow> UniquenessIndex \<Rightarrow> bool \<times> UniquenessIndex" where
  "Insert f blockHeight idx =
     (if Contains idx f then (False, idx) else (True, idx(f \<mapsto> blockHeight)))"

definition Remove :: "uint256 \<Rightarrow> UniquenessIndex \<Rightarrow> UniquenessIndex" where
  "Remove f idx = idx(f := None)"

text \<open>A sequence of calls on the index; the results of the inserts are dropped.\<close>

datatype index_call = CallInsert uint256 nat | CallRemove uint256

fun index_run :: "index_call list \<Rightarrow> UniquenessIndex \<Rightarrow> UniquenessIndex" where
  "index_run [] idx = idx"
| "index_run (CallInsert f blockHeight # cs) idx = index_run cs (snd (Insert f blockHeight idx))"
| "index_run (CallRemove f # cs) idx = index_run cs (Remove f idx)"

section \<open>What a lookup finds\<close>

text \<open>
  The functions of this section are not part of the program: they say, without
  any cache, what a lookup is to find, and the theorems compare the program with
  them. \<open>chain_coin\<close> is the content of the authoritative stack: the entry of the
  cache where there is one, the record of the store otherwise.
\<close>

definition chain_coin :: "coins_stack \<Rightarrow> COutPoint \<Rightarrow> Coin option" where
  "chain_coin chain p = (case fst chain p of Some e \<Rightarrow> coin e | None \<Rightarrow> snd chain p)"

text \<open>
  \<open>cache_filled chain chain'\<close>: the store is the same, and the cache differs at most
  by entries that were absent and now hold the store's record, neither dirty nor
  fresh.
\<close>

definition cache_filled :: "coins_stack \<Rightarrow> coins_stack \<Rightarrow> bool" where
  "cache_filled chain chain' =
     (snd chain' = snd chain
      \<and> (\<forall>p. fst chain' p = fst chain p
              \<or> (fst chain p = None
                  \<and> (\<exists>c. snd chain p = Some c
                          \<and> fst chain' p = Some \<lparr>coin = Some c, DIRTY = False, FRESH = False\<rparr>))))"

text \<open>
  What the pool overlay shows over a chain content \<open>g\<close>, and what \<open>view\<close> shows for
  each of its two parents.
\<close>

definition overlay_coin ::
  "uint32_t \<Rightarrow> CTransaction list \<Rightarrow> (COutPoint \<Rightarrow> Coin option) \<Rightarrow> COutPoint \<Rightarrow> Coin option" where
  "overlay_coin sentinel pool g p =
     (case mempool_get pool (hash p) of
        Some tx \<Rightarrow>
          if unat (nIndex p) < length (vout tx)
          then (if isSpent pool p then None
                else Some \<lparr>Coin.out = vout tx ! unat (nIndex p), fCoinBase = False,
                           fCoinStake = False, Coin.nHeight = sentinel\<rparr>)
          else g p
      | None \<Rightarrow> g p)"

definition view_coin ::
  "helpers \<Rightarrow> CTransaction list \<Rightarrow> view_ptr \<Rightarrow> (COutPoint \<Rightarrow> Coin option) \<Rightarrow> COutPoint \<Rightarrow> Coin option" where
  "view_coin h pool b g p =
     (case b of viewDummy \<Rightarrow> None | viewMempool \<Rightarrow> overlay_coin (MEMPOOL_HEIGHT h) pool g p)"

text \<open>A hit: the coin that \<open>f\<close> shows, unless the pool records the outpoint as consumed.\<close>

definition hit_coin :: "(COutPoint \<Rightarrow> Coin option) \<Rightarrow> CTransaction list \<Rightarrow> COutPoint \<Rightarrow> Coin option" where
  "hit_coin f pool p = (if isSpent pool p then None else f p)"

text \<open>Bit \<open>j\<close> of a bitmap: bit \<open>j mod 8\<close> of byte \<open>j div 8\<close>.\<close>

definition bitmap_bit :: "8 word list \<Rightarrow> nat \<Rightarrow> bool" where
  "bitmap_bit bm j = bit (bm ! (j div 8)) (j mod 8)"

text \<open>The entries of a cache agree with \<open>f\<close>.\<close>

definition cache_agrees :: "CCoinsMap \<Rightarrow> (COutPoint \<Rightarrow> Coin option) \<Rightarrow> bool" where
  "cache_agrees cache f = (\<forall>p e. cache p = Some e \<longrightarrow> coin e = f p)"

text \<open>
  The invariant of the loop, for a parent \<open>b\<close> of \<open>view\<close> and a chain content \<open>g\<close>:
  \<open>view\<close> still has the parent \<open>b\<close>, the authoritative stack still has the content
  \<open>g\<close>, and the entries of \<open>view\<close> agree with what \<open>view\<close> is to show.
\<close>

definition locals_ok ::
  "helpers \<Rightarrow> CTransaction list \<Rightarrow> view_ptr \<Rightarrow> (COutPoint \<Rightarrow> Coin option) \<Rightarrow> getutxos_locals \<Rightarrow> bool" where
  "locals_ok h pool b g L =
     (base (view L) = b \<and> chain_coin (viewChain L) = g
      \<and> cache_agrees (cacheCoins (view L)) (view_coin h pool b g))"

section \<open>Malformed requests\<close>

text \<open>
  These predicates are not part of the program; the theorems use them to say which
  requests are malformed. A URI part is malformed when the test of line 408
  rejects it; the URI is malformed when one of the parts that the loop of line 401
  visits is. A body is undeserializable when one of the two reads of lines 438 and
  439 throws.
\<close>

definition malformed_part :: "helpers \<Rightarrow> string \<Rightarrow> bool" where
  "malformed_part h part =
     (ParseInt32 h (substr part (str_find part CHR ''-'' + 1) npos) = None
      \<or> \<not> IsHex h (substr part 0 (str_find part CHR ''-'')))"

definition malformed_uri :: "helpers \<Rightarrow> string list \<Rightarrow> bool" where
  "malformed_uri h uriParts =
     (uriParts \<noteq> []
      \<and> list_ex (malformed_part h)
           (drop (if uriParts ! 0 = ''checkmempool'' then 1 else 0) uriParts))"

definition undeserializable :: "helpers \<Rightarrow> string \<Rightarrow> bool" where
  "undeserializable h s =
     (case Unserialize_bool h (Serialize_string h s) of
        None \<Rightarrow> True
      | Some (fCheckMemPool, oss) \<Rightarrow> Unserialize_vOutPoints h oss = None)"

section \<open>An instance of the helpers\<close>

text \<open>
  To run the handler on concrete requests the helper record needs a value. This
  one follows the usual string utilities and the network serialization of the
  code base: little-endian integers, vectors and strings prefixed by their
  compact size, hex digits in either case. Amounts are written to JSON as
  plain numbers and scripts as an object with their hex dump. The theorems that
  hold for every helper record do not depend on it.
\<close>

definition hex_value :: "char \<Rightarrow> nat option" where
  "hex_value c = map_of (zip ''0123456789abcdef'' [0 ..< 16] @ zip ''ABCDEF'' [10 ..< 16]) c"

definition hex_char :: "nat \<Rightarrow> char" where
  "hex_char k = ''0123456789abcdef'' ! (k mod 16)"

definition is_space :: "char \<Rightarrow> bool" where
  "is_space c = (c \<in> set [CHR '' '', CHR 0x09, CHR 0x0A, CHR 0x0B, CHR 0x0C, CHR 0x0D])"

fun dec_value :: "string \<Rightarrow> nat \<Rightarrow> nat option" where
  "dec_value [] acc = Some acc"
| "dec_value (c # cs) acc =
     (case map_of (zip ''0123456789'' [0 ..< 10]) c of
        None \<Rightarrow> None
      | Some d \<Rightarrow> dec_value cs (10 * acc + d))"

definition ParseInt32_impl :: "string \<Rightarrow> int option" where
  "ParseInt32_impl s =
     (case s of
        [] \<Rightarrow> None
      | c # cs \<Rightarrow>
          if c = CHR ''-'' \<and> cs \<noteq> []
          then (case dec_value cs 0 of
                  None \<Rightarrow> None
                | Some v \<Rightarrow> if v \<le> 2 ^ 31 then Some (- int v) else None)
          else (case dec_value (if c = CHR ''+'' \<and> cs \<noteq> [] then cs else s) 0 of
                  None \<Rightarrow> None
                | Some v \<Rightarrow> if v < 2 ^ 31 then Some (int v) else None))"

definition IsHex_impl :: "string \<Rightarrow> bool" where
  "IsHex_impl s = (list_all (\<lambda>c. hex_value c \<noteq> None) s \<and> length s > 0 \<and> even (length s))"

definition hex_number :: "string \<Rightarrow> nat" where
  "hex_number s = foldl (\<lambda>acc c. 16 * acc + (case hex_value c of None \<Rightarrow> 0 | Some d \<Rightarrow> d)) 0 s"

definition SetHex_impl :: "string \<Rightarrow> uint256" where
  "SetHex_impl s =
     (let t = dropWhile is_space s;
          u = (if take 2 t = ''0x'' \<or> take 2 t = ''0X'' then drop 2 t else t)
      in word_of_nat (hex_number (takeWhile (\<lambda>c. hex_value c \<noteq> None) u)))"

definition GetHex_impl :: "uint256 \<Rightarrow> string" where
  "GetHex_impl w = map (\<lambda>i. hex_char (unat w div 16 ^ (63 - i))) [0 ..< 64]"

fun ParseHex_impl :: "string \<Rightarrow> string" where
  "ParseHex_impl [] = []"
| "ParseHex_impl (c # cs) =
     (if is_space c then ParseHex_impl cs
      else (case hex_value c of
              None \<Rightarrow> []
            | Some a \<Rightarrow>
                (case cs of
                   [] \<Rightarrow> []
                 | c' # rest \<Rightarrow>
                     (case hex_value c' of
                        None \<Rightarrow> []
                      | Some b \<Rightarrow> char_of (16 * a + b) # ParseHex_impl rest))))"

definition HexStr_impl :: "string \<Rightarrow> string" where
  "HexStr_impl s =
     concat (map (\<lambda>c. [hex_char ((of_char c :: nat) div 16), hex_char (of_char c)]) s)"

definition le_bytes :: "nat \<Rightarrow> nat \<Rightarrow> string" where
  "le_bytes k v = map (\<lambda>i. char_of (v div 256 ^ i)) [0 ..< k]"

definition le_value :: "string \<Rightarrow> nat" where
  "le_value s = foldr (\<lambda>c acc. of_char c + 256 * acc) s 0"

definition WriteCompactSize :: "nat \<Rightarrow> string" where
  "WriteCompactSize k =
     (if k < 253 then le_bytes 1 k
      else if k < 2 ^ 16 then char_of (253 :: nat) # le_bytes 2 k
      else if k < 2 ^ 32 then char_of (254 :: nat) # le_bytes 4 k
      else char_of (255 :: nat) # le_bytes 8 k)"

definition ReadCompactSize :: "string \<Rightarrow> (nat \<times> string) option" where
  "ReadCompactSize s =
     (case s of
        [] \<Rightarrow> None
      | c # cs \<Rightarrow>
          (let k = (of_char c :: nat);
               w = (if k < 253 then 0 else if k = 253 then 2 else if k = 254 then 4 else 8);
               v = (if k < 253 then k else le_value (take w cs));
               least = (if k < 253 then 0 else if k = 253 then 253 else if k = 254 then 2 ^ 16
                        else 2 ^ 32)
           in if length cs < w \<or> v < least \<or> v > 33554432 then None
              else Some (v, drop w cs)))"

definition Unserialize_bool_impl :: "string \<Rightarrow> (bool \<times> string) option" where
  "Unserialize_bool_impl s =
     (case s of [] \<Rightarrow> None | c # cs \<Rightarrow> Some ((of_char c :: nat) \<noteq> 0, cs))"

fun read_outpoints :: "nat \<Rightarrow> string \<Rightarrow> (COutPoint list \<times> string) option" where
  "read_outpoints 0 s = Some ([], s)"
| "read_outpoints (Suc k) s =
     (if length s < 36 then None
      else (case read_outpoints k (drop 36 s) of
              None \<Rightarrow> None
            | Some (ps, r) \<Rightarrow>
                Some (\<lparr>hash = word_of_nat (le_value (take 32 s)),
                       nIndex = word_of_nat (le_value (take 4 (drop 32 s)))\<rparr> # ps, r)))"

definition Unserialize_vOutPoints_impl :: "string \<Rightarrow> (COutPoint list \<times> string) option" where
  "Unserialize_vOutPoints_impl s =
     (case ReadCompactSize s of None \<Rightarrow> None | Some (k, r) \<Rightarrow> read_outpoints k r)"

definition Serialize_CTxOut_impl :: "CTxOut \<Rightarrow> string" where
  "Serialize_CTxOut_impl txo =
     le_bytes 8 (unat (nValue txo)) @ WriteCompactSize (length (scriptPubKey txo))
     @ map (\<lambda>b. char_of (unat b)) (scriptPubKey txo)"

fun join :: "string \<Rightarrow> string list \<Rightarrow> string" where
  "join sep [] = []"
| "join sep [x] = x"
| "join sep (x # y # ys) = x @ sep @ join sep (y # ys)"

definition dec_int :: "int \<Rightarrow> string" where
  "dec_int i = (if i < 0 then ''-'' @ dec (nat (- i)) else dec (nat i))"

fun write_json :: "UniValue \<Rightarrow> string" where
  "write_json (VNUM i) = dec_int i"
| "write_json (VSTR s) = [CHR 0x22] @ s @ [CHR 0x22]"
| "write_json (VARR xs) = ''['' @ join '','' (map write_json xs) @ '']''"
| "write_json (VOBJ kvs) =
     ''{'' @ join '','' (map (\<lambda>(k, v). [CHR 0x22] @ k @ [CHR 0x22] @ '':'' @ write_json v) kvs)
     @ ''}''"

definition sample_helpers :: helpers where
  "sample_helpers =
     \<lparr>ParseInt32 = ParseInt32_impl,
      IsHex = IsHex_impl,
      SetHex = SetHex_impl,
      GetHex = GetHex_impl,
      ParseHex = ParseHex_impl,
      HexStr = HexStr_impl,
      Serialize_string = (\<lambda>s. WriteCompactSize (length s) @ s),
      Unserialize_bool = Unserialize_bool_impl,
      Unserialize_vOutPoints = Unserialize_vOutPoints_impl,
      Serialize_int = (\<lambda>v. le_bytes 4 (unat v)),
      Serialize_uint32 = (\<lambda>v. le_bytes 4 (unat v)),
      Serialize_uint256 = (\<lambda>v. le_bytes 32 (unat v)),
      Serialize_bytes = (\<lambda>bs. WriteCompactSize (length bs) @ map (\<lambda>b. char_of (unat b)) bs),
      Serialize_CTxOut = Serialize_CTxOut_impl,
      Serialize_vector = (\<lambda>f xs. WriteCompactSize (length xs) @ concat (map f xs)),
      ValueFromAmount = (\<lambda>v. VNUM (sint v)),
      ScriptPubKeyToUniv =
        (\<lambda>script fIncludeHex. VOBJ [(''hex'', VSTR (HexStr_impl (map (\<lambda>b. char_of (unat b)) script)))]),
      UniValue_write = write_json,
      MEMPOOL_HEIGHT = 0x7FFFFFFF\<rparr>"

section \<open>A sample node\<close>

text \<open>
  A node to run the handler on: it is past its warm-up, its chain is at height 120,
  its store holds output 0 of the transaction \<open>0xaa\<close>, confirmed at height 100 with
  the value 500000, and holds no output of the transaction \<open>0xbb\<close>; the cache
  \<open>*pcoinsTip\<close> and the pool are empty.
\<close>

definition sample_coin :: Coin where
  "sample_coin =
     \<lparr>Coin.out = \<lparr>nValue = 500000, scriptPubKey = [0x51]\<rparr>, fCoinBase = False,
      fCoinStake = False, Coin.nHeight = 100\<rparr>"

definition sample_node :: node where
  "sample_node =
     \<lparr>RPCIsInWarmup = None, chainActive_Height = 120, chainActive_Tip = Some 0x1234,
      pcoinsdbview = [\<lparr>hash = 0xaa, nIndex = 0\<rparr> \<mapsto> sample_coin],
      pcoinsTip = Map.empty, mempool = []\<rparr>"

text \<open>
  The same node with one pooled transaction \<open>0xcc\<close>, which consumes output 1 of
  \<open>0xdd\<close> and produces one output.
\<close>

definition sample_node_pool :: node where
  "sample_node_pool =
     sample_node\<lparr>mempool := [\<lparr>txid = 0xcc, vin = [\<lparr>hash = 0xdd, nIndex = 1\<rparr>],
                              vout = [\<lparr>nValue = 7, scriptPubKey = []\<rparr>]\<rparr>]\<rparr>"

text \<open>
  A request body of 37 bytes that the sample helpers read as the outpoint
  (\<open>0xaa\<close>, 0): the number of outpoints (one), the 32 bytes of the transaction id
  and the 4 bytes of the output index, both little-endian. The handler serializes
  the body as a string, so the flag \<open>fCheckMemPool\<close> is read from the length
  prefix, which is not zero. \<open>sample_body_hex\<close> is the same body written in hex.
\<close>

definition sample_body :: string where
  "sample_body = map char_of [1, 170, 0, 0, 0, 0, 0, 0, 0, 0, 0, 0, 0, 0, 0, 0, 0, 0, 0, 0, 0, 0, 0, 0, 0, 0, 0, 0, 0, 0, 0, 0, 0, 0, 0, 0, 0 :: nat]"

definition sample_body_hex :: string where
  "sample_body_hex = ''01aa0000000000000000000000000000000000000000000000000000000000000000000000''"

section \<open>Theorems: the legacy shielded stake input\<close>

text \<open>
  C1. For the legacy shielded stake input, \<open>CreateTxIn\<close>, \<open>CreateTxOuts\<close> and
  \<open>GetTxOutFrom\<close> return \<open>false\<close> for every stake object, wallet pointer, buffer,
  amount and flag, and leave the buffer they were given as it was.
\<close>

theorem legacy_stake_creation_disabled:
  "fst (CreateTxIn this pwallet txIn hashTxOut) = False
   \<and> fst (CreateTxOuts this pwallet txOuts nTotal onlyP2PK) = False
   \<and> fst (GetTxOutFrom this txOut) = False
   \<and> snd (CreateTxIn this pwallet txIn hashTxOut) = txIn
   \<and> snd (CreateTxOuts this pwallet txOuts nTotal onlyP2PK) = txOuts
   \<and> snd (GetTxOutFrom this txOut) = txOut"
  by (simp add: CreateTxIn_def CreateTxOuts_def GetTxOutFrom_def)

section \<open>Theorems: lifecycle of the quorum subsystem\<close>

lemma worker_live_initial: "worker_live llmq_initial"
  by (simp add: worker_live_def llmq_initial_def)

lemma llmq_do_safe:
  assumes "worker_live s"
  shows "\<exists>s'. llmq_do c s = Some s' \<and> worker_live s'"
proof (cases c)
  case (Init e)
  then show ?thesis
    by (simp add: InitLLMQSystem_def worker_live_def)
next
  case Destroy
  from assms show ?thesis
    unfolding Destroy
    by (auto simp: DestroyLLMQSystem_def delete_worker_def worker_live_def split: option.splits)
next
  case Start
  from assms show ?thesis
    unfolding Start
    by (auto simp: StartLLMQSystem_def call_worker_def worker_live_def split: option.splits)
next
  case Stop
  from assms show ?thesis
    unfolding Stop
    by (auto simp: StopLLMQSystem_def call_worker_def worker_live_def split: option.splits)
qed

lemma llmq_run_safe:
  "worker_live s \<Longrightarrow> \<exists>s'. llmq_run cs s = Some s' \<and> worker_live s'"
proof (induction cs arbitrary: s)
  case Nil
  then show ?case by simp
next
  case (Cons c cs)
  from llmq_do_safe [OF Cons.prems] obtain s1
    where s1: "llmq_do c s = Some s1" "worker_live s1" by blast
  from Cons.IH [OF s1(2)] s1(1) show ?case by simp
qed

text \<open>
  C10. While \<open>blsWorker\<close> is null, \<open>StartLLMQSystem\<close> and \<open>StopLLMQSystem\<close> change
  nothing; \<open>DestroyLLMQSystem\<close> leaves \<open>blsWorker\<close> null; and from the initial state
  every sequence of Init, Start, Stop and Destroy calls runs to the end without a
  call through a null or deleted worker, ending with \<open>blsWorker\<close> null or live.
\<close>

theorem llmq_lifecycle_safe:
  "(blsWorker s = None \<longrightarrow> StartLLMQSystem s = Some s \<and> StopLLMQSystem s = Some s)
   \<and> (\<forall>s'. DestroyLLMQSystem s = Some s' \<longrightarrow> blsWorker s' = None)
   \<and> (\<exists>s'. llmq_run cs llmq_initial = Some s' \<and> worker_live s')"
proof (intro conjI)
  show "blsWorker s = None \<longrightarrow> StartLLMQSystem s = Some s \<and> StopLLMQSystem s = Some s"
    by (simp add: StartLLMQSystem_def StopLLMQSystem_def)
  show "\<forall>s'. DestroyLLMQSystem s = Some s' \<longrightarrow> blsWorker s' = None"
    by (auto simp: DestroyLLMQSystem_def split: option.splits)
  show "\<exists>s'. llmq_run cs llmq_initial = Some s' \<and> worker_live s'"
    by (rule llmq_run_safe [OF worker_live_initial])
qed

theorem llmq_lifecycle_safe_witness:
  "blsWorker (llmq_initial :: nat llmq) = None
   \<and> StartLLMQSystem (llmq_initial :: nat llmq) = Some llmq_initial
   \<and> StopLLMQSystem (llmq_initial :: nat llmq) = Some llmq_initial
   \<and> (\<exists>s'. DestroyLLMQSystem (llmq_initial :: nat llmq) = Some s' \<and> blsWorker s' = None)
   \<and> (\<exists>s'. llmq_run [Start, Init 7, Start, Stop, Destroy, Stop, Destroy, Init 8, Init 9, Start]
              (llmq_initial :: nat llmq) = Some s')"
proof -
  have n: "blsWorker (llmq_initial :: nat llmq) = None"
    by (simp add: llmq_initial_def)
  have d: "\<exists>s'. DestroyLLMQSystem (llmq_initial :: nat llmq) = Some s'"
    by (simp add: DestroyLLMQSystem_def delete_worker_def llmq_initial_def)
  from llmq_lifecycle_safe
         [of "llmq_initial :: nat llmq"
             "[Start, Init 7, Start, Stop, Destroy, Stop, Destroy, Init 8, Init 9, Start]"]
       n d
  show ?thesis by blast
qed

section \<open>Lemmas: the handler, case by case\<close>

lemma rest_getutxos_warmup:
  "RPCIsInWarmup st = Some m \<Longrightarrow>
   rest_getutxos h st u b =
     \<lparr>ret = Some (RESTERR HTTP_SERVICE_UNAVAILABLE (''Service temporarily unavailable: '' @ m)),
      coin_lookups = [], after = st, built = None\<rparr>"
  by (simp add: rest_getutxos_def CheckWarmup_def)

lemma rest_getutxos_rejected:
  "RPCIsInWarmup st = None \<Longrightarrow> getutxos_request h u b = Inl e \<Longrightarrow>
   rest_getutxos h st u b = \<lparr>ret = Some e, coin_lookups = [], after = st, built = None\<rparr>"
  by (simp add: rest_getutxos_def CheckWarmup_def)

lemma rest_getutxos_exceeded:
  "RPCIsInWarmup st = None \<Longrightarrow> getutxos_request h u b = Inr (rf, cm, vs) \<Longrightarrow>
   length vs > MAX_GETUTXOS_OUTPOINTS \<Longrightarrow>
   rest_getutxos h st u b =
     \<lparr>ret = Some (RESTERR HTTP_INTERNAL_SERVER_ERROR
                    (''Error: max outpoints exceeded (max: '' @ dec MAX_GETUTXOS_OUTPOINTS
                     @ '', tried: '' @ dec (length vs) @ '')'')),
      coin_lookups = [], after = st, built = None\<rparr>"
  by (simp add: rest_getutxos_def CheckWarmup_def)

lemma rest_getutxos_answered:
  "RPCIsInWarmup st = None \<Longrightarrow> getutxos_request h u b = Inr (rf, cm, vs) \<Longrightarrow>
   length vs \<le> MAX_GETUTXOS_OUTPOINTS \<Longrightarrow>
   rest_getutxos h st u b =
     \<lparr>ret = getutxos_reply h st rf (getutxos_lookup h st cm vs),
      coin_lookups = lookups (getutxos_lookup h st cm vs),
      after = st\<lparr>pcoinsTip := fst (viewChain (getutxos_lookup h st cm vs)),
                 pcoinsdbview := snd (viewChain (getutxos_lookup h st cm vs))\<rparr>,
      built = Some (getutxos_lookup h st cm vs)\<rparr>"
  by (simp add: rest_getutxos_def CheckWarmup_def Let_def)

lemma lookups_getutxos_loop:
  "lookups (getutxos_loop h pool ps i L) = lookups L @ ps"
  by (induction ps arbitrary: i L) (auto simp: getutxos_body_def Let_def split: prod.splits)

lemma lookups_getutxos_lookup:
  "lookups (getutxos_lookup h st cm vs) = vs"
  by (simp add: getutxos_lookup_def lookups_getutxos_loop Let_def)

lemma dec_MAX_GETUTXOS_OUTPOINTS: "dec MAX_GETUTXOS_OUTPOINTS = ''15''"
  by (simp add: MAX_GETUTXOS_OUTPOINTS_def dec.simps)


section \<open>Lemmas: what the lookups find\<close>

lemma cache_filled_refl: "cache_filled chain chain"
  by (simp add: cache_filled_def)

lemma cache_filled_trans:
  assumes "cache_filled a b" "cache_filled b c"
  shows "cache_filled a c"
  unfolding cache_filled_def
proof (intro conjI allI)
  show "snd c = snd a" using assms by (simp add: cache_filled_def)
  fix p
  from assms have s: "snd b = snd a" "snd c = snd b" by (simp_all add: cache_filled_def)
  from assms(1) have 1: "fst b p = fst a p
      \<or> (fst a p = None \<and> (\<exists>x. snd a p = Some x \<and> fst b p = Some \<lparr>coin = Some x, DIRTY = False, FRESH = False\<rparr>))"
    by (simp add: cache_filled_def)
  from assms(2) have 2: "fst c p = fst b p
      \<or> (fst b p = None \<and> (\<exists>x. snd b p = Some x \<and> fst c p = Some \<lparr>coin = Some x, DIRTY = False, FRESH = False\<rparr>))"
    by (simp add: cache_filled_def)
  from 1 2 s show "fst c p = fst a p
      \<or> (fst a p = None \<and> (\<exists>x. snd a p = Some x \<and> fst c p = Some \<lparr>coin = Some x, DIRTY = False, FRESH = False\<rparr>))"
    by auto
qed

lemma cache_filled_chain_coin:
  assumes "cache_filled a b"
  shows "chain_coin b = chain_coin a"
proof
  fix p
  from assms have "snd b = snd a" and "fst b p = fst a p
      \<or> (fst a p = None \<and> (\<exists>x. snd a p = Some x \<and> fst b p = Some \<lparr>coin = Some x, DIRTY = False, FRESH = False\<rparr>))"
    by (simp_all add: cache_filled_def)
  then show "chain_coin b p = chain_coin a p"
    by (auto simp: chain_coin_def split: option.splits)
qed

text \<open>
  A lookup through \<open>*pcoinsTip\<close> answers the content of the stack and at most fills
  the cache; so does a lookup through the pool overlay, which answers what the
  overlay is to show.
\<close>

lemma pcoinsTip_GetCoin_result:
  assumes "pcoinsTip_GetCoin p chain = (r, chain')"
  shows "r = chain_coin chain p \<and> cache_filled chain chain'"
proof (cases chain)
  case (Pair cache db)
  show ?thesis
  proof (cases "cache p")
    case (Some e)
    with assms Pair show ?thesis
      by (auto simp: pcoinsTip_GetCoin_def CCoinsViewCache_GetCoin_def chain_coin_def cache_filled_refl)
  next
    case None
    show ?thesis
    proof (cases "db p")
      case n: None
      with assms Pair None show ?thesis
        by (auto simp: pcoinsTip_GetCoin_def CCoinsViewCache_GetCoin_def CCoinsViewDB_GetCoin_def
                       chain_coin_def cache_filled_refl)
    next
      case (Some c)
      with assms Pair None
      have "r = Some c"
        and "chain' = (cache(p \<mapsto> \<lparr>coin = Some c, DIRTY = False, FRESH = False\<rparr>), db)"
        by (auto simp: pcoinsTip_GetCoin_def CCoinsViewCache_GetCoin_def CCoinsViewDB_GetCoin_def)
      with Pair None Some show ?thesis
        by (simp add: chain_coin_def cache_filled_def)
    qed
  qed
qed

lemma CCoinsViewMemPool_GetCoin_result:
  assumes "CCoinsViewMemPool_GetCoin s pool pcoinsTip_GetCoin p chain = (r, chain')"
  shows "r = overlay_coin s pool (chain_coin chain) p \<and> cache_filled chain chain'"
  using assms
  by (auto simp: CCoinsViewMemPool_GetCoin_def overlay_coin_def cache_filled_refl
           dest: pcoinsTip_GetCoin_result split: option.splits if_splits)

lemma cache_agrees_update:
  "cache_agrees cache f \<Longrightarrow> f p = Some c \<Longrightarrow>
   cache_agrees (cache(p \<mapsto> \<lparr>coin = Some c, DIRTY = False, FRESH = False\<rparr>)) f"
  by (simp add: cache_agrees_def)

lemma view_GetCoin_result:
  assumes agree: "cache_agrees (cacheCoins v) (view_coin h pool (base v) (chain_coin chain))"
      and call: "view_GetCoin h pool p (v, chain) = (r, (v', chain'))"
  shows "r = view_coin h pool (base v) (chain_coin chain) p
         \<and> base v' = base v
         \<and> cache_agrees (cacheCoins v') (view_coin h pool (base v) (chain_coin chain))
         \<and> cache_filled chain chain'"
proof (cases "cacheCoins v p")
  case (Some e)
  with agree have "coin e = view_coin h pool (base v) (chain_coin chain) p"
    by (simp add: cache_agrees_def)
  with Some call agree show ?thesis
    by (cases "base v")
       (auto simp: view_GetCoin_def CCoinsViewCache_GetCoin_def cache_filled_refl)
next
  case None
  show ?thesis
  proof (cases "base v")
    case viewDummy
    with None call agree show ?thesis
      by (auto simp: view_GetCoin_def CCoinsViewCache_GetCoin_def CCoinsView_GetCoin_def
                     view_coin_def cache_filled_refl)
  next
    case viewMempool
    obtain r0 c0 where src:
      "CCoinsViewMemPool_GetCoin (MEMPOOL_HEIGHT h) pool pcoinsTip_GetCoin p chain = (r0, c0)"
      by (cases "CCoinsViewMemPool_GetCoin (MEMPOOL_HEIGHT h) pool pcoinsTip_GetCoin p chain")
    from CCoinsViewMemPool_GetCoin_result [OF src]
    have r0: "r0 = overlay_coin (MEMPOOL_HEIGHT h) pool (chain_coin chain) p"
      and c0: "cache_filled chain c0" by simp_all
    show ?thesis
    proof (cases r0)
      case n: None
      with None viewMempool call src agree r0 c0 show ?thesis
        by (auto simp: view_GetCoin_def CCoinsViewCache_GetCoin_def view_coin_def)
    next
      case (Some c)
      with r0 viewMempool have "view_coin h pool (base v) (chain_coin chain) p = Some c"
        by (simp add: view_coin_def)
      from cache_agrees_update [OF agree this]
      have agree': "cache_agrees ((cacheCoins v)(p \<mapsto> \<lparr>coin = Some c, DIRTY = False, FRESH = False\<rparr>))
                      (view_coin h pool (base v) (chain_coin chain))" .
      from Some None viewMempool call src
      have "r = Some c" and "chain' = c0"
        and "v' = v\<lparr>cacheCoins := (cacheCoins v)(p \<mapsto> \<lparr>coin = Some c, DIRTY = False, FRESH = False\<rparr>)\<rparr>"
        by (auto simp: view_GetCoin_def CCoinsViewCache_GetCoin_def)
      with agree' c0 r0 Some viewMempool show ?thesis
        by (simp add: view_coin_def)
    qed
  qed
qed

text \<open>
  One round of the loop keeps the invariant, appends the hit to the locals and
  sets the bit of the outpoint when it is a hit.
\<close>

lemma getutxos_body_result:
  fixes p :: COutPoint
  assumes ok: "locals_ok h pool b g L"
  defines "c \<equiv> hit_coin (view_coin h pool b g) pool p"
  shows "locals_ok h pool b g (getutxos_body h pool p i L)"
    and "cache_filled (viewChain L) (viewChain (getutxos_body h pool p i L))"
    and "hits (getutxos_body h pool p i L) = hits L @ [c \<noteq> None]"
    and "outs (getutxos_body h pool p i L) =
           outs L @ (case c of None \<Rightarrow> [] | Some x \<Rightarrow> [CCoin_of x])"
    and "bitmapStringRepresentation (getutxos_body h pool p i L) =
           bitmapStringRepresentation L @ [if c \<noteq> None then CHR ''1'' else CHR ''0'']"
    and "bitmap (getutxos_body h pool p i L) =
           (bitmap L)[i div 8 := (bitmap L ! (i div 8)) OR push_bit (i mod 8) (if c \<noteq> None then 1 else 0)]"
    and "lookups (getutxos_body h pool p i L) = lookups L @ [p]"
proof -
  obtain r v' chain' where call: "view_GetCoin h pool p (view L, viewChain L) = (r, (v', chain'))"
    by (metis prod.exhaust)
  from ok have b: "base (view L) = b" and g: "chain_coin (viewChain L) = g"
    and agree: "cache_agrees (cacheCoins (view L)) (view_coin h pool (base (view L)) (chain_coin (viewChain L)))"
    by (simp_all add: locals_ok_def)
  from view_GetCoin_result [OF agree call] b g
  have r: "r = view_coin h pool b g p" and b': "base v' = b"
    and agree': "cache_agrees (cacheCoins v') (view_coin h pool b g)"
    and filled: "cache_filled (viewChain L) chain'"
    by simp_all
  from cache_filled_chain_coin [OF filled] g have g': "chain_coin chain' = g" by simp
  have c: "c = (if isSpent pool p then None else r)"
    by (simp add: c_def hit_coin_def r)
  show "locals_ok h pool b g (getutxos_body h pool p i L)"
    using b' g' agree' by (simp add: getutxos_body_def call locals_ok_def Let_def)
  show "cache_filled (viewChain L) (viewChain (getutxos_body h pool p i L))"
    using filled by (simp add: getutxos_body_def call Let_def)
  show "hits (getutxos_body h pool p i L) = hits L @ [c \<noteq> None]"
    by (auto simp: getutxos_body_def call Let_def c)
  show "outs (getutxos_body h pool p i L) =
           outs L @ (case c of None \<Rightarrow> [] | Some x \<Rightarrow> [CCoin_of x])"
    by (auto simp: getutxos_body_def call Let_def c split: option.splits)
  show "bitmapStringRepresentation (getutxos_body h pool p i L) =
           bitmapStringRepresentation L @ [if c \<noteq> None then CHR ''1'' else CHR ''0'']"
    by (auto simp: getutxos_body_def call Let_def c)
  show "bitmap (getutxos_body h pool p i L) =
           (bitmap L)[i div 8 := (bitmap L ! (i div 8)) OR push_bit (i mod 8) (if c \<noteq> None then 1 else 0)]"
    by (auto simp: getutxos_body_def call Let_def c)
  show "lookups (getutxos_body h pool p i L) = lookups L @ [p]"
    by (simp add: getutxos_body_def call Let_def)
qed

lemma getutxos_loop_result:
  assumes "locals_ok h pool b g L"
  shows "locals_ok h pool b g (getutxos_loop h pool ps i L)
    \<and> cache_filled (viewChain L) (viewChain (getutxos_loop h pool ps i L))
    \<and> hits (getutxos_loop h pool ps i L) =
        hits L @ map (\<lambda>p. hit_coin (view_coin h pool b g) pool p \<noteq> None) ps
    \<and> outs (getutxos_loop h pool ps i L) =
        outs L @ map CCoin_of (List.map_filter (hit_coin (view_coin h pool b g) pool) ps)
    \<and> bitmapStringRepresentation (getutxos_loop h pool ps i L) =
        bitmapStringRepresentation L
        @ map (\<lambda>p. if hit_coin (view_coin h pool b g) pool p \<noteq> None then CHR ''1'' else CHR ''0'') ps
    \<and> lookups (getutxos_loop h pool ps i L) = lookups L @ ps"
  using assms
proof (induction ps arbitrary: i L)
  case Nil
  then show ?case by (simp add: cache_filled_refl List.map_filter_simps)
next
  case (Cons p ps)
  note step = getutxos_body_result [OF Cons.prems, of p i]
  note IH = Cons.IH [OF step(1), of "Suc i"]
  from IH step(2) have "cache_filled (viewChain L) (viewChain (getutxos_loop h pool (p # ps) i L))"
    by (auto intro: cache_filled_trans)
  with IH step show ?case
    by (auto simp: List.map_filter_simps split: option.splits)
qed

lemma bitmap_bit_update:
  assumes "i div 8 < length bm"
  shows "bitmap_bit (bm[i div 8 := (bm ! (i div 8)) OR push_bit (i mod 8) (if b then 1 else 0)]) j
         = (bitmap_bit bm j \<or> (j = i \<and> b))"
proof (cases "j div 8 = i div 8")
  case True
  have "(j = i) = (j mod 8 = i mod 8)"
    using True by (metis div_mult_mod_eq)
  with True assms show ?thesis
    by (auto simp: bitmap_bit_def bit_or_iff bit_push_bit_iff bit_1_iff)
next
  case False
  then have "j \<noteq> i" by auto
  with False show ?thesis
    by (simp add: bitmap_bit_def)
qed

lemma getutxos_loop_bitmap:
  assumes "locals_ok h pool b g L" and "i + length ps \<le> 8 * length (bitmap L)"
  shows "length (bitmap (getutxos_loop h pool ps i L)) = length (bitmap L)
    \<and> (\<forall>j. bitmap_bit (bitmap (getutxos_loop h pool ps i L)) j =
            (bitmap_bit (bitmap L) j
             \<or> (i \<le> j \<and> j < i + length ps
                 \<and> hit_coin (view_coin h pool b g) pool (ps ! (j - i)) \<noteq> None)))"
  using assms
proof (induction ps arbitrary: i L)
  case Nil
  then show ?case by auto
next
  case (Cons p ps)
  let ?L1 = "getutxos_body h pool p i L"
  note step = getutxos_body_result [OF Cons.prems(1), of p i]
  from Cons.prems(2) have i: "i div 8 < length (bitmap L)" by auto
  have len1: "length (bitmap ?L1) = length (bitmap L)"
    by (simp add: step(6))
  from Cons.prems(2) len1 have "Suc i + length ps \<le> 8 * length (bitmap ?L1)" by simp
  note IH = Cons.IH [OF step(1) this]
  have bit1: "bitmap_bit (bitmap ?L1) j =
                (bitmap_bit (bitmap L) j \<or> (j = i \<and> hit_coin (view_coin h pool b g) pool p \<noteq> None))" for j
    unfolding step(6) by (rule bitmap_bit_update [OF i])
  show ?case
  proof (intro conjI allI)
    show "length (bitmap (getutxos_loop h pool (p # ps) i L)) = length (bitmap L)"
      using IH len1 by simp
    fix j
    have "(i \<le> j \<and> j < i + length (p # ps) \<and> hit_coin (view_coin h pool b g) pool ((p # ps) ! (j - i)) \<noteq> None)
          = ((j = i \<and> hit_coin (view_coin h pool b g) pool p \<noteq> None)
             \<or> (Suc i \<le> j \<and> j < Suc i + length ps
                 \<and> hit_coin (view_coin h pool b g) pool (ps ! (j - Suc i)) \<noteq> None))"
    proof (cases "j = i")
      case True
      then show ?thesis by simp
    next
      case False
      then show ?thesis
        by (auto simp: nth_Cons')
    qed
    with IH bit1 [of j]
    show "bitmap_bit (bitmap (getutxos_loop h pool (p # ps) i L)) j =
            (bitmap_bit (bitmap L) j
             \<or> (i \<le> j \<and> j < i + length (p # ps)
                 \<and> hit_coin (view_coin h pool b g) pool ((p # ps) ! (j - i)) \<noteq> None))"
      by auto
  qed
qed

text \<open>
  What lines 462 to 492 compute, for every node and every list of outpoints:
  outpoint \<open>i\<close> is a hit exactly when \<open>view\<close> shows a coin for it and the pool does
  not record it as consumed; there is one coin record per hit, in the order of the
  request; the string has one character per outpoint; and bit \<open>i\<close> of the bitmap is
  set exactly when outpoint \<open>i\<close> is a hit, the bits beyond the last outpoint being 0.
\<close>

lemma getutxos_lookup_result:
  fixes h st cm vs
  defines "L \<equiv> getutxos_lookup h st cm vs"
      and "f \<equiv> view_coin h (mempool st) (if cm then viewMempool else viewDummy)
                  (chain_coin (pcoinsTip st, pcoinsdbview st))"
  shows "hits L = map (\<lambda>p. hit_coin f (mempool st) p \<noteq> None) vs"
    and "outs L = map CCoin_of (List.map_filter (hit_coin f (mempool st)) vs)"
    and "bitmapStringRepresentation L =
           map (\<lambda>p. if hit_coin f (mempool st) p \<noteq> None then CHR ''1'' else CHR ''0'') vs"
    and "lookups L = vs"
    and "cache_filled (pcoinsTip st, pcoinsdbview st) (viewChain L)"
    and "base (view L) = (if cm then viewMempool else viewDummy)"
    and "length (bitmap L) = (length vs + 7) div 8"
    and "j < 8 * length (bitmap L) \<Longrightarrow>
           bitmap_bit (bitmap L) j = (j < length vs \<and> hit_coin f (mempool st) (vs ! j) \<noteq> None)"
proof -
  let ?b = "if cm then viewMempool else viewDummy"
  let ?g = "chain_coin (pcoinsTip st, pcoinsdbview st)"
  let ?L0 = "\<lparr>bitmap = replicate ((length vs + 7) div 8) 0, outs = [],
              bitmapStringRepresentation = [], hits = [],
              view = \<lparr>base = ?b, cacheCoins = Map.empty\<rparr>,
              viewChain = (pcoinsTip st, pcoinsdbview st), lookups = []\<rparr>"
  have L: "L = getutxos_loop h (mempool st) vs 0 ?L0"
    by (simp add: L_def getutxos_lookup_def SetBackend_def Let_def)
  have ok: "locals_ok h (mempool st) ?b ?g ?L0"
    by (simp add: locals_ok_def cache_agrees_def)
  note res = getutxos_loop_result [OF ok, of vs 0, folded L f_def]
  from res show "hits L = map (\<lambda>p. hit_coin f (mempool st) p \<noteq> None) vs"
    and "outs L = map CCoin_of (List.map_filter (hit_coin f (mempool st)) vs)"
    and "bitmapStringRepresentation L =
           map (\<lambda>p. if hit_coin f (mempool st) p \<noteq> None then CHR ''1'' else CHR ''0'') vs"
    and "lookups L = vs"
    and "cache_filled (pcoinsTip st, pcoinsdbview st) (viewChain L)"
    by simp_all
  from res have "locals_ok h (mempool st) ?b ?g L" by simp
  then show "base (view L) = (if cm then viewMempool else viewDummy)"
    by (simp add: locals_ok_def)
  have "0 + length vs \<le> 8 * length (bitmap ?L0)" by simp
  note bits = getutxos_loop_bitmap [OF ok this, folded L f_def]
  from bits show len: "length (bitmap L) = (length vs + 7) div 8" by simp
  assume "j < 8 * length (bitmap L)"
  with len have "j div 8 < (length vs + 7) div 8" by simp
  then have "\<not> bitmap_bit (replicate ((length vs + 7) div 8) 0) j"
    by (simp add: bitmap_bit_def)
  with bits show "bitmap_bit (bitmap L) j = (j < length vs \<and> hit_coin f (mempool st) (vs ! j) \<noteq> None)"
    by simp
qed

text \<open>
  Without \<open>fCheckMemPool\<close> the parent of \<open>view\<close> stays \<open>viewDummy\<close>: nothing is
  found, whatever the store, the cache and the pool hold, and the authoritative
  stack is not touched.
\<close>

lemma getutxos_lookup_unchecked:
  "hits (getutxos_lookup h st False vs) = replicate (length vs) False"
  "outs (getutxos_lookup h st False vs) = []"
  "bitmapStringRepresentation (getutxos_lookup h st False vs) = replicate (length vs) CHR ''0''"
  "viewChain (getutxos_lookup h st False vs) = (pcoinsTip st, pcoinsdbview st)"
proof -
  have none: "hit_coin (view_coin h (mempool st) viewDummy g) (mempool st) p = None" for g p
    by (simp add: hit_coin_def view_coin_def)
  show "hits (getutxos_lookup h st False vs) = replicate (length vs) False"
    by (simp add: getutxos_lookup_result(1) none map_replicate_const)
  have "List.map_filter (\<lambda>p. None :: Coin option) vs = []"
    by (induction vs) (simp_all add: List.map_filter_simps)
  moreover have "hit_coin (view_coin h (mempool st) viewDummy g) (mempool st) = (\<lambda>p. None)" for g
    by (rule ext) (rule none)
  ultimately show "outs (getutxos_lookup h st False vs) = []"
    by (simp add: getutxos_lookup_result(2))
  show "bitmapStringRepresentation (getutxos_lookup h st False vs) = replicate (length vs) CHR ''0''"
    by (simp add: getutxos_lookup_result(3) none map_replicate_const)
  have "viewChain (getutxos_loop h pool ps i L) = viewChain L" if "base (view L) = viewDummy"
    for pool ps i L
    using that
  proof (induction ps arbitrary: i L)
    case Nil
    then show ?case by simp
  next
    case (Cons p ps)
    have "viewChain (getutxos_body h pool p i L) = viewChain L
          \<and> base (view (getutxos_body h pool p i L)) = viewDummy"
      using Cons.prems
      by (auto simp: getutxos_body_def view_GetCoin_def CCoinsViewCache_GetCoin_def
                     CCoinsView_GetCoin_def Let_def split: option.splits prod.splits)
    with Cons.IH [of "getutxos_body h pool p i L" "Suc i"] show ?case by simp
  qed
  then show "viewChain (getutxos_lookup h st False vs) = (pcoinsTip st, pcoinsdbview st)"
    by (simp add: getutxos_lookup_def Let_def)
qed

lemma getutxos_request_fails:
  "getutxos_request h u b = Inl e \<Longrightarrow> \<not> fst e \<and> status (snd e) \<noteq> HTTP_OK"
  by (auto simp: getutxos_request_def getutxos_uri_def getutxos_switch_def getutxos_raw_def
                 RESTERR_def Let_def
           split: prod.splits if_splits option.splits sum.splits RetFormat.splits)

lemma getutxos_request_format:
  "getutxos_request h u b = Inr (rf, cm, vs) \<Longrightarrow> rf = snd (ParseDataFormat u)"
  by (auto simp: getutxos_request_def Let_def split: prod.splits if_splits sum.splits)

lemma rest_getutxos_success:
  assumes "ret (rest_getutxos h st u b) = Some (True, r)"
  shows "\<exists>rf cm vs. RPCIsInWarmup st = None \<and> getutxos_request h u b = Inr (rf, cm, vs)
           \<and> length vs \<le> MAX_GETUTXOS_OUTPOINTS
           \<and> getutxos_reply h st rf (getutxos_lookup h st cm vs) = Some (True, r)"
proof (cases "RPCIsInWarmup st")
  case (Some m)
  with assms show ?thesis by (simp add: rest_getutxos_warmup RESTERR_def)
next
  case None
  show ?thesis
  proof (cases "getutxos_request h u b")
    case (Inl e)
    with assms None getutxos_request_fails [OF Inl] show ?thesis
      by (simp add: rest_getutxos_rejected)
  next
    case (Inr x)
    then obtain rf cm vs where req: "getutxos_request h u b = Inr (rf, cm, vs)"
      by (cases x) auto
    show ?thesis
    proof (cases "length vs > MAX_GETUTXOS_OUTPOINTS")
      case True
      with assms None req show ?thesis
        by (simp add: rest_getutxos_exceeded RESTERR_def)
    next
      case False
      with assms None req show ?thesis
        by (simp add: rest_getutxos_answered)
    qed
  qed
qed

section \<open>Running the handler on the sample node\<close>

lemmas request_eval = getutxos_request_def ParseDataFormat_def rf_names_def uriParts_of_def substr_def
  str_find_def npos_def getutxos_uri_def getutxos_switch_def getutxos_raw_def

lemmas helper_eval = sample_helpers_def ParseInt32_impl_def IsHex_impl_def SetHex_impl_def
  hex_value_def hex_number_def is_space_def upt_rec

lemmas lookup_eval = getutxos_lookup_def getutxos_body_def view_GetCoin_def SetBackend_def
  CCoinsViewCache_GetCoin_def CCoinsView_GetCoin_def CCoinsViewMemPool_GetCoin_def
  pcoinsTip_GetCoin_def CCoinsViewDB_GetCoin_def mempool_get_def isSpent_def CCoin_of_def

lemma sample_request_16:
  "getutxos_request sample_helpers
     ''/aa-0/aa-0/aa-0/aa-0/aa-0/aa-0/aa-0/aa-0/aa-0/aa-0/aa-0/aa-0/aa-0/aa-0/aa-0/aa-0.json'' []
   = Inr (RF_JSON, False,
          [\<lparr>hash = 0xaa, nIndex = 0\<rparr>, \<lparr>hash = 0xaa, nIndex = 0\<rparr>, \<lparr>hash = 0xaa, nIndex = 0\<rparr>,
           \<lparr>hash = 0xaa, nIndex = 0\<rparr>, \<lparr>hash = 0xaa, nIndex = 0\<rparr>, \<lparr>hash = 0xaa, nIndex = 0\<rparr>,
           \<lparr>hash = 0xaa, nIndex = 0\<rparr>, \<lparr>hash = 0xaa, nIndex = 0\<rparr>, \<lparr>hash = 0xaa, nIndex = 0\<rparr>,
           \<lparr>hash = 0xaa, nIndex = 0\<rparr>, \<lparr>hash = 0xaa, nIndex = 0\<rparr>, \<lparr>hash = 0xaa, nIndex = 0\<rparr>,
           \<lparr>hash = 0xaa, nIndex = 0\<rparr>, \<lparr>hash = 0xaa, nIndex = 0\<rparr>, \<lparr>hash = 0xaa, nIndex = 0\<rparr>,
           \<lparr>hash = 0xaa, nIndex = 0\<rparr>])"
  by (simp add: request_eval helper_eval)

lemma sample_request_2:
  "getutxos_request sample_helpers ''/aa-0/bb-3.json'' []
   = Inr (RF_JSON, False, [\<lparr>hash = 0xaa, nIndex = 0\<rparr>, \<lparr>hash = 0xbb, nIndex = 3\<rparr>])"
  by (simp add: request_eval helper_eval)

lemma sample_request_2_checked:
  "getutxos_request sample_helpers ''/checkmempool/aa-0/bb-3.json'' []
   = Inr (RF_JSON, True, [\<lparr>hash = 0xaa, nIndex = 0\<rparr>, \<lparr>hash = 0xbb, nIndex = 3\<rparr>])"
  by (simp add: request_eval helper_eval)

lemma sample_request_2_bin:
  "getutxos_request sample_helpers ''/checkmempool/aa-0/bb-3.bin'' []
   = Inr (RF_BINARY, True, [\<lparr>hash = 0xaa, nIndex = 0\<rparr>, \<lparr>hash = 0xbb, nIndex = 3\<rparr>])"
  by (simp add: request_eval helper_eval)

lemma sample_lookup_checked:
  "bitmap (getutxos_lookup sample_helpers sample_node True
             [\<lparr>hash = 0xaa, nIndex = 0\<rparr>, \<lparr>hash = 0xbb, nIndex = 3\<rparr>]) = [1]"
  "outs (getutxos_lookup sample_helpers sample_node True
             [\<lparr>hash = 0xaa, nIndex = 0\<rparr>, \<lparr>hash = 0xbb, nIndex = 3\<rparr>])
     = [\<lparr>nHeight = 100, out = \<lparr>nValue = 500000, scriptPubKey = [0x51]\<rparr>\<rparr>]"
  "bitmapStringRepresentation (getutxos_lookup sample_helpers sample_node True
             [\<lparr>hash = 0xaa, nIndex = 0\<rparr>, \<lparr>hash = 0xbb, nIndex = 3\<rparr>]) = ''10''"
  "hits (getutxos_lookup sample_helpers sample_node True
             [\<lparr>hash = 0xaa, nIndex = 0\<rparr>, \<lparr>hash = 0xbb, nIndex = 3\<rparr>]) = [True, False]"
  by (simp_all add: lookup_eval sample_node_def sample_coin_def)

lemma sample_lookup_unchecked:
  "bitmap (getutxos_lookup sample_helpers sample_node False
             [\<lparr>hash = 0xaa, nIndex = 0\<rparr>, \<lparr>hash = 0xbb, nIndex = 3\<rparr>]) = [0]"
  "outs (getutxos_lookup sample_helpers sample_node False
             [\<lparr>hash = 0xaa, nIndex = 0\<rparr>, \<lparr>hash = 0xbb, nIndex = 3\<rparr>]) = []"
  "bitmapStringRepresentation (getutxos_lookup sample_helpers sample_node False
             [\<lparr>hash = 0xaa, nIndex = 0\<rparr>, \<lparr>hash = 0xbb, nIndex = 3\<rparr>]) = ''00''"
  "hits (getutxos_lookup sample_helpers sample_node False
             [\<lparr>hash = 0xaa, nIndex = 0\<rparr>, \<lparr>hash = 0xbb, nIndex = 3\<rparr>]) = [False, False]"
  by (simp_all add: lookup_eval sample_node_def sample_coin_def)

lemma sample_node_fields:
  "RPCIsInWarmup sample_node = None"
  "chainActive_Height sample_node = 120"
  "chainActive_Tip sample_node = Some 0x1234"
  "mempool sample_node = []"
  by (simp_all add: sample_node_def)


section \<open>Theorems: the limit on the number of outpoints\<close>

text \<open>
  C4. The limit is 15. When the request parses to more than 15 outpoints, the
  handler returns \<open>false\<close> with an error reply (once the warm-up is over, the reply
  of line 460), makes no coin lookup and leaves the node as it was; the locals of
  the lookup, \<open>bitmap\<close> among them, are never built. When it parses to at most 15
  outpoints and the warm-up is over, the handler goes on: it looks up exactly the
  parsed outpoints, in order, and replies from what the lookup found.
\<close>

theorem getutxos_limit:
  assumes "getutxos_request h strURIPart body = Inr (rf, fCheckMemPool, vOutPoints)"
  shows "MAX_GETUTXOS_OUTPOINTS = 15
    \<and> (length vOutPoints > MAX_GETUTXOS_OUTPOINTS \<longrightarrow>
         (\<exists>e. ret (rest_getutxos h st strURIPart body) = Some (False, e) \<and> status e \<noteq> HTTP_OK)
         \<and> (RPCIsInWarmup st = None \<longrightarrow>
              ret (rest_getutxos h st strURIPart body) =
                Some (RESTERR HTTP_INTERNAL_SERVER_ERROR
                        (''Error: max outpoints exceeded (max: 15, tried: ''
                         @ dec (length vOutPoints) @ '')'')))
         \<and> coin_lookups (rest_getutxos h st strURIPart body) = []
         \<and> built (rest_getutxos h st strURIPart body) = None
         \<and> after (rest_getutxos h st strURIPart body) = st)
    \<and> (length vOutPoints \<le> MAX_GETUTXOS_OUTPOINTS \<and> RPCIsInWarmup st = None \<longrightarrow>
         ret (rest_getutxos h st strURIPart body) =
           getutxos_reply h st rf (getutxos_lookup h st fCheckMemPool vOutPoints)
         \<and> coin_lookups (rest_getutxos h st strURIPart body) = vOutPoints
         \<and> built (rest_getutxos h st strURIPart body)
             = Some (getutxos_lookup h st fCheckMemPool vOutPoints))"
proof (intro conjI impI)
  show "MAX_GETUTXOS_OUTPOINTS = 15" by (simp add: MAX_GETUTXOS_OUTPOINTS_def)
next
  assume big: "length vOutPoints > MAX_GETUTXOS_OUTPOINTS"
  show "\<exists>e. ret (rest_getutxos h st strURIPart body) = Some (False, e) \<and> status e \<noteq> HTTP_OK"
  proof (cases "RPCIsInWarmup st")
    case None
    from rest_getutxos_exceeded [OF None assms big] show ?thesis
      by (simp add: RESTERR_def)
  next
    case (Some m)
    from rest_getutxos_warmup [OF Some] show ?thesis
      by (simp add: RESTERR_def)
  qed
  show "coin_lookups (rest_getutxos h st strURIPart body) = []"
    using big assms
    by (cases "RPCIsInWarmup st") (simp_all add: rest_getutxos_exceeded rest_getutxos_warmup)
  show "after (rest_getutxos h st strURIPart body) = st"
    using big assms
    by (cases "RPCIsInWarmup st") (simp_all add: rest_getutxos_exceeded rest_getutxos_warmup)
  show "built (rest_getutxos h st strURIPart body) = None"
    using big assms
    by (cases "RPCIsInWarmup st") (simp_all add: rest_getutxos_exceeded rest_getutxos_warmup)
  assume "RPCIsInWarmup st = None"
  from rest_getutxos_exceeded [OF this assms big]
  show "ret (rest_getutxos h st strURIPart body) =
          Some (RESTERR HTTP_INTERNAL_SERVER_ERROR
                  (''Error: max outpoints exceeded (max: 15, tried: ''
                   @ dec (length vOutPoints) @ '')''))"
    by (simp add: dec_MAX_GETUTXOS_OUTPOINTS)
next
  assume a: "length vOutPoints \<le> MAX_GETUTXOS_OUTPOINTS \<and> RPCIsInWarmup st = None"
  with rest_getutxos_answered [OF _ assms, of st]
  show "ret (rest_getutxos h st strURIPart body) =
           getutxos_reply h st rf (getutxos_lookup h st fCheckMemPool vOutPoints)"
    and "coin_lookups (rest_getutxos h st strURIPart body) = vOutPoints"
    and "built (rest_getutxos h st strURIPart body)
           = Some (getutxos_lookup h st fCheckMemPool vOutPoints)"
    by (simp_all add: lookups_getutxos_lookup)
qed

theorem getutxos_limit_witness:
  "getutxos_request sample_helpers
     ''/aa-0/aa-0/aa-0/aa-0/aa-0/aa-0/aa-0/aa-0/aa-0/aa-0/aa-0/aa-0/aa-0/aa-0/aa-0/aa-0.json'' []
   = Inr (RF_JSON, False,
          [\<lparr>hash = 0xaa, nIndex = 0\<rparr>, \<lparr>hash = 0xaa, nIndex = 0\<rparr>, \<lparr>hash = 0xaa, nIndex = 0\<rparr>,
           \<lparr>hash = 0xaa, nIndex = 0\<rparr>, \<lparr>hash = 0xaa, nIndex = 0\<rparr>, \<lparr>hash = 0xaa, nIndex = 0\<rparr>,
           \<lparr>hash = 0xaa, nIndex = 0\<rparr>, \<lparr>hash = 0xaa, nIndex = 0\<rparr>, \<lparr>hash = 0xaa, nIndex = 0\<rparr>,
           \<lparr>hash = 0xaa, nIndex = 0\<rparr>, \<lparr>hash = 0xaa, nIndex = 0\<rparr>, \<lparr>hash = 0xaa, nIndex = 0\<rparr>,
           \<lparr>hash = 0xaa, nIndex = 0\<rparr>, \<lparr>hash = 0xaa, nIndex = 0\<rparr>, \<lparr>hash = 0xaa, nIndex = 0\<rparr>,
           \<lparr>hash = 0xaa, nIndex = 0\<rparr>])
   \<and> ret (rest_getutxos sample_helpers sample_node
        ''/aa-0/aa-0/aa-0/aa-0/aa-0/aa-0/aa-0/aa-0/aa-0/aa-0/aa-0/aa-0/aa-0/aa-0/aa-0/aa-0.json'' [])
      = Some (RESTERR HTTP_INTERNAL_SERVER_ERROR ''Error: max outpoints exceeded (max: 15, tried: 16)'')
   \<and> coin_lookups (rest_getutxos sample_helpers sample_node
        ''/aa-0/aa-0/aa-0/aa-0/aa-0/aa-0/aa-0/aa-0/aa-0/aa-0/aa-0/aa-0/aa-0/aa-0/aa-0/aa-0.json'' [])
      = []
   \<and> built (rest_getutxos sample_helpers sample_node
        ''/aa-0/aa-0/aa-0/aa-0/aa-0/aa-0/aa-0/aa-0/aa-0/aa-0/aa-0/aa-0/aa-0/aa-0/aa-0/aa-0.json'' [])
      = None
   \<and> getutxos_request sample_helpers ''/aa-0/bb-3.json'' []
      = Inr (RF_JSON, False, [\<lparr>hash = 0xaa, nIndex = 0\<rparr>, \<lparr>hash = 0xbb, nIndex = 3\<rparr>])
   \<and> RPCIsInWarmup sample_node = None
   \<and> coin_lookups (rest_getutxos sample_helpers sample_node ''/aa-0/bb-3.json'' [])
      = [\<lparr>hash = 0xaa, nIndex = 0\<rparr>, \<lparr>hash = 0xbb, nIndex = 3\<rparr>]"
proof -
  have big: "length [\<lparr>hash = 0xaa, nIndex = 0\<rparr>, \<lparr>hash = 0xaa, nIndex = 0\<rparr>, \<lparr>hash = 0xaa, nIndex = 0\<rparr>,
           \<lparr>hash = 0xaa, nIndex = 0\<rparr>, \<lparr>hash = 0xaa, nIndex = 0\<rparr>, \<lparr>hash = 0xaa, nIndex = 0\<rparr>,
           \<lparr>hash = 0xaa, nIndex = 0\<rparr>, \<lparr>hash = 0xaa, nIndex = 0\<rparr>, \<lparr>hash = 0xaa, nIndex = 0\<rparr>,
           \<lparr>hash = 0xaa, nIndex = 0\<rparr>, \<lparr>hash = 0xaa, nIndex = 0\<rparr>, \<lparr>hash = 0xaa, nIndex = 0\<rparr>,
           \<lparr>hash = 0xaa, nIndex = 0\<rparr>, \<lparr>hash = 0xaa, nIndex = 0\<rparr>, \<lparr>hash = 0xaa, nIndex = 0\<rparr>,
           \<lparr>hash = 0xaa, nIndex = (0::32 word)\<rparr>] > MAX_GETUTXOS_OUTPOINTS"
    by (simp add: MAX_GETUTXOS_OUTPOINTS_def)
  have d: "dec (length [\<lparr>hash = 0xaa, nIndex = 0\<rparr>, \<lparr>hash = 0xaa, nIndex = 0\<rparr>, \<lparr>hash = 0xaa, nIndex = 0\<rparr>,
           \<lparr>hash = 0xaa, nIndex = 0\<rparr>, \<lparr>hash = 0xaa, nIndex = 0\<rparr>, \<lparr>hash = 0xaa, nIndex = 0\<rparr>,
           \<lparr>hash = 0xaa, nIndex = 0\<rparr>, \<lparr>hash = 0xaa, nIndex = 0\<rparr>, \<lparr>hash = 0xaa, nIndex = 0\<rparr>,
           \<lparr>hash = 0xaa, nIndex = 0\<rparr>, \<lparr>hash = 0xaa, nIndex = 0\<rparr>, \<lparr>hash = 0xaa, nIndex = 0\<rparr>,
           \<lparr>hash = 0xaa, nIndex = 0\<rparr>, \<lparr>hash = 0xaa, nIndex = 0\<rparr>, \<lparr>hash = 0xaa, nIndex = 0\<rparr>,
           \<lparr>hash = 0xaa, nIndex = (0::32 word)\<rparr>]) = ''16''"
    by (simp add: dec.simps)
  have small: "length [\<lparr>hash = 0xaa, nIndex = 0\<rparr>, \<lparr>hash = 0xbb, nIndex = (3::32 word)\<rparr>]
                 \<le> MAX_GETUTXOS_OUTPOINTS \<and> RPCIsInWarmup sample_node = None"
    by (simp add: MAX_GETUTXOS_OUTPOINTS_def sample_node_fields)
  note over = getutxos_limit [OF sample_request_16, of sample_node,
                THEN conjunct2, THEN conjunct1, THEN mp, OF big]
  note under = getutxos_limit [OF sample_request_2, of sample_node,
                THEN conjunct2, THEN conjunct2, THEN mp, OF small]
  from over [THEN conjunct2, THEN conjunct1, THEN mp, OF sample_node_fields(1)]
  have r: "ret (rest_getutxos sample_helpers sample_node
        ''/aa-0/aa-0/aa-0/aa-0/aa-0/aa-0/aa-0/aa-0/aa-0/aa-0/aa-0/aa-0/aa-0/aa-0/aa-0/aa-0.json'' [])
      = Some (RESTERR HTTP_INTERNAL_SERVER_ERROR ''Error: max outpoints exceeded (max: 15, tried: 16)'')"
    unfolding d by simp
  show ?thesis
    by (intro conjI sample_request_16 sample_request_2 r sample_node_fields(1)
              over [THEN conjunct2, THEN conjunct2, THEN conjunct1]
              over [THEN conjunct2, THEN conjunct2, THEN conjunct2, THEN conjunct1]
              under [THEN conjunct2, THEN conjunct1])
qed

section \<open>Theorems: the binary reply\<close>

lemma getutxos_reply_binary:
  assumes "getutxos_reply h st RF_BINARY L = Some (True, r)"
  shows "\<exists>tip. chainActive_Tip st = Some tip
    \<and> r = \<lparr>content_type = ''application/octet-stream'', status = HTTP_OK,
             content = ssGetUTXOResponse h (chainActive_Height st) tip (bitmap L) (outs L)\<rparr>"
proof (cases "chainActive_Tip st")
  case None
  with assms show ?thesis by (simp add: getutxos_reply_def)
next
  case (Some tip)
  with assms show ?thesis by (simp add: getutxos_reply_def)
qed

lemma getutxos_reply_hex:
  assumes "getutxos_reply h st RF_HEX L = Some (True, r)"
  shows "\<exists>tip. chainActive_Tip st = Some tip
    \<and> r = \<lparr>content_type = ''text/plain'', status = HTTP_OK,
             content = HexStr h (ssGetUTXOResponse h (chainActive_Height st) tip (bitmap L) (outs L))
                       @ ''\<newline>''\<rparr>"
proof (cases "chainActive_Tip st")
  case None
  with assms show ?thesis by (simp add: getutxos_reply_def)
next
  case (Some tip)
  with assms show ?thesis by (simp add: getutxos_reply_def)
qed


text \<open>
  C5. When the handler returns \<open>true\<close> for a request in the binary format, the
  body of the reply is the serialization of the height of the active chain, then
  the hash of its tip, then the bitmap, then the vector of coin records, each
  record written as the constant 0, its height and its output. The bitmap has one
  bit per outpoint, set exactly for the hits. There is one record per hit, in the
  order of the request, and the height and the output of a record are the height
  and the output (value and script) of the coin that the lookup found, whatever
  its coinbase and coinstake flags.
\<close>

theorem binary_reply_layout:
  assumes "ret (rest_getutxos h st strURIPart body) = Some (True, r)"
      and "snd (ParseDataFormat strURIPart) = RF_BINARY"
  shows "\<exists>fCheckMemPool vOutPoints tip.
           getutxos_request h strURIPart body = Inr (RF_BINARY, fCheckMemPool, vOutPoints)
           \<and> chainActive_Tip st = Some tip
           \<and> status r = HTTP_OK
           \<and> content r =
               Serialize_int h (chainActive_Height st) @ Serialize_uint256 h tip
               @ Serialize_bytes h (bitmap (getutxos_lookup h st fCheckMemPool vOutPoints))
               @ Serialize_vector h
                   (\<lambda>c. Serialize_uint32 h 0 @ Serialize_uint32 h (CCoin.nHeight c)
                        @ Serialize_CTxOut h (CCoin.out c))
                   (outs (getutxos_lookup h st fCheckMemPool vOutPoints))
           \<and> length (bitmap (getutxos_lookup h st fCheckMemPool vOutPoints))
               = (length vOutPoints + 7) div 8
           \<and> (\<forall>j < 8 * ((length vOutPoints + 7) div 8).
                 bitmap_bit (bitmap (getutxos_lookup h st fCheckMemPool vOutPoints)) j
                 = (j < length vOutPoints
                    \<and> hit_coin (view_coin h (mempool st)
                                  (if fCheckMemPool then viewMempool else viewDummy)
                                  (chain_coin (pcoinsTip st, pcoinsdbview st)))
                         (mempool st) (vOutPoints ! j) \<noteq> None))
           \<and> outs (getutxos_lookup h st fCheckMemPool vOutPoints)
               = map (\<lambda>found. \<lparr>CCoin.nHeight = Coin.nHeight found,
                                CCoin.out = \<lparr>nValue = nValue (Coin.out found),
                                             scriptPubKey = scriptPubKey (Coin.out found)\<rparr>\<rparr>)
                   (List.map_filter
                      (hit_coin (view_coin h (mempool st)
                                   (if fCheckMemPool then viewMempool else viewDummy)
                                   (chain_coin (pcoinsTip st, pcoinsdbview st)))
                         (mempool st))
                      vOutPoints)"
proof -
  from rest_getutxos_success [OF assms(1)] obtain rf cm vs
    where req: "getutxos_request h strURIPart body = Inr (rf, cm, vs)"
      and reply: "getutxos_reply h st rf (getutxos_lookup h st cm vs) = Some (True, r)"
    by blast
  from getutxos_request_format [OF req] assms(2) have rf: "rf = RF_BINARY" by simp
  from getutxos_reply_binary [OF reply [unfolded rf]] obtain tip
    where tip: "chainActive_Tip st = Some tip"
      and r: "r = \<lparr>content_type = ''application/octet-stream'', status = HTTP_OK,
                 content = ssGetUTXOResponse h (chainActive_Height st) tip
                             (bitmap (getutxos_lookup h st cm vs))
                             (outs (getutxos_lookup h st cm vs))\<rparr>"
    by blast
  have ser: "Serialize_CCoin h = (\<lambda>c. Serialize_uint32 h 0 @ Serialize_uint32 h (CCoin.nHeight c)
                                        @ Serialize_CTxOut h (CCoin.out c))"
    by (rule ext) (simp add: Serialize_CCoin_def)
  have len: "length (bitmap (getutxos_lookup h st cm vs)) = (length vs + 7) div 8"
    by (rule getutxos_lookup_result(7))
  have bits: "\<forall>j < 8 * ((length vs + 7) div 8).
                 bitmap_bit (bitmap (getutxos_lookup h st cm vs)) j
                 = (j < length vs
                    \<and> hit_coin (view_coin h (mempool st)
                                  (if cm then viewMempool else viewDummy)
                                  (chain_coin (pcoinsTip st, pcoinsdbview st)))
                         (mempool st) (vs ! j) \<noteq> None)"
  proof (intro allI impI)
    fix j assume "j < 8 * ((length vs + 7) div 8)"
    with len have "j < 8 * length (bitmap (getutxos_lookup h st cm vs))" by simp
    then show "bitmap_bit (bitmap (getutxos_lookup h st cm vs)) j
                 = (j < length vs
                    \<and> hit_coin (view_coin h (mempool st)
                                  (if cm then viewMempool else viewDummy)
                                  (chain_coin (pcoinsTip st, pcoinsdbview st)))
                         (mempool st) (vs ! j) \<noteq> None)"
      by (rule getutxos_lookup_result(8))
  qed
  have cont: "content r =
               Serialize_int h (chainActive_Height st) @ Serialize_uint256 h tip
               @ Serialize_bytes h (bitmap (getutxos_lookup h st cm vs))
               @ Serialize_vector h
                   (\<lambda>c. Serialize_uint32 h 0 @ Serialize_uint32 h (CCoin.nHeight c)
                        @ Serialize_CTxOut h (CCoin.out c))
                   (outs (getutxos_lookup h st cm vs))"
    by (simp add: r ssGetUTXOResponse_def ser)
  have st: "status r = HTTP_OK" by (simp add: r)
  from req rf have req': "getutxos_request h strURIPart body = Inr (RF_BINARY, cm, vs)" by simp
  have rec: "CCoin_of = (\<lambda>found. \<lparr>CCoin.nHeight = Coin.nHeight found,
                                   CCoin.out = \<lparr>nValue = nValue (Coin.out found),
                                                scriptPubKey = scriptPubKey (Coin.out found)\<rparr>\<rparr>)"
    by (rule ext) (simp add: CCoin_of_def)
  note records = getutxos_lookup_result(2) [of h st cm vs, unfolded rec]
  show ?thesis
    by (rule exI [of _ cm], rule exI [of _ vs], rule exI [of _ tip])
       (intro conjI req' tip st cont len bits records)
qed

theorem binary_reply_layout_witness:
  "ret (rest_getutxos sample_helpers sample_node ''/checkmempool/aa-0/bb-3.bin'' [])
     = Some (True, \<lparr>content_type = ''application/octet-stream'', status = HTTP_OK,
                    content = ssGetUTXOResponse sample_helpers 120 0x1234 [1]
                                [\<lparr>nHeight = 100, out = \<lparr>nValue = 500000, scriptPubKey = [0x51]\<rparr>\<rparr>]\<rparr>)
   \<and> snd (ParseDataFormat ''/checkmempool/aa-0/bb-3.bin'') = RF_BINARY
   \<and> (\<exists>fCheckMemPool vOutPoints tip.
         getutxos_request sample_helpers ''/checkmempool/aa-0/bb-3.bin'' []
           = Inr (RF_BINARY, fCheckMemPool, vOutPoints)
         \<and> chainActive_Tip sample_node = Some tip
         \<and> ssGetUTXOResponse sample_helpers 120 0x1234 [1]
             [\<lparr>nHeight = 100, out = \<lparr>nValue = 500000, scriptPubKey = [0x51]\<rparr>\<rparr>]
           = Serialize_int sample_helpers (chainActive_Height sample_node)
             @ Serialize_uint256 sample_helpers tip
             @ Serialize_bytes sample_helpers
                 (bitmap (getutxos_lookup sample_helpers sample_node fCheckMemPool vOutPoints))
             @ Serialize_vector sample_helpers
                 (\<lambda>c. Serialize_uint32 sample_helpers 0 @ Serialize_uint32 sample_helpers (CCoin.nHeight c)
                      @ Serialize_CTxOut sample_helpers (CCoin.out c))
                 (outs (getutxos_lookup sample_helpers sample_node fCheckMemPool vOutPoints)))"
proof -
  have len: "length [\<lparr>hash = 0xaa, nIndex = 0\<rparr>, \<lparr>hash = 0xbb, nIndex = (3::32 word)\<rparr>]
               \<le> MAX_GETUTXOS_OUTPOINTS"
    by (simp add: MAX_GETUTXOS_OUTPOINTS_def)
  have r: "ret (rest_getutxos sample_helpers sample_node ''/checkmempool/aa-0/bb-3.bin'' [])
     = Some (True, \<lparr>content_type = ''application/octet-stream'', status = HTTP_OK,
                    content = ssGetUTXOResponse sample_helpers 120 0x1234 [1]
                                [\<lparr>nHeight = 100, out = \<lparr>nValue = 500000, scriptPubKey = [0x51]\<rparr>\<rparr>]\<rparr>)"
    by (simp add: rest_getutxos_answered [OF sample_node_fields(1) sample_request_2_bin len]
                  getutxos_reply_def sample_node_fields sample_lookup_checked)
  have f: "snd (ParseDataFormat ''/checkmempool/aa-0/bb-3.bin'') = RF_BINARY"
    by (simp add: ParseDataFormat_def rf_names_def)
  from binary_reply_layout [OF r f] obtain cm vs tip
    where "getutxos_request sample_helpers ''/checkmempool/aa-0/bb-3.bin'' [] = Inr (RF_BINARY, cm, vs)"
      and "chainActive_Tip sample_node = Some tip"
      and "content \<lparr>content_type = ''application/octet-stream'', status = HTTP_OK,
                    content = ssGetUTXOResponse sample_helpers 120 0x1234 [1]
                                [\<lparr>nHeight = 100, out = \<lparr>nValue = 500000, scriptPubKey = [0x51]\<rparr>\<rparr>]\<rparr>
           = Serialize_int sample_helpers (chainActive_Height sample_node)
             @ Serialize_uint256 sample_helpers tip
             @ Serialize_bytes sample_helpers
                 (bitmap (getutxos_lookup sample_helpers sample_node cm vs))
             @ Serialize_vector sample_helpers
                 (\<lambda>c. Serialize_uint32 sample_helpers 0 @ Serialize_uint32 sample_helpers (CCoin.nHeight c)
                      @ Serialize_CTxOut sample_helpers (CCoin.out c))
                 (outs (getutxos_lookup sample_helpers sample_node cm vs))"
    by blast
  then have "\<exists>fCheckMemPool vOutPoints tip.
         getutxos_request sample_helpers ''/checkmempool/aa-0/bb-3.bin'' []
           = Inr (RF_BINARY, fCheckMemPool, vOutPoints)
         \<and> chainActive_Tip sample_node = Some tip
         \<and> ssGetUTXOResponse sample_helpers 120 0x1234 [1]
             [\<lparr>nHeight = 100, out = \<lparr>nValue = 500000, scriptPubKey = [0x51]\<rparr>\<rparr>]
           = Serialize_int sample_helpers (chainActive_Height sample_node)
             @ Serialize_uint256 sample_helpers tip
             @ Serialize_bytes sample_helpers
                 (bitmap (getutxos_lookup sample_helpers sample_node fCheckMemPool vOutPoints))
             @ Serialize_vector sample_helpers
                 (\<lambda>c. Serialize_uint32 sample_helpers 0 @ Serialize_uint32 sample_helpers (CCoin.nHeight c)
                      @ Serialize_CTxOut sample_helpers (CCoin.out c))
                 (outs (getutxos_lookup sample_helpers sample_node fCheckMemPool vOutPoints))"
    by (intro exI [of _ cm] exI [of _ vs] exI [of _ tip]) simp
  with r f show ?thesis by (intro conjI)
qed

section \<open>Theorems: what a query leaves behind\<close>

lemma rest_getutxos_after:
  "\<exists>chain'. cache_filled (pcoinsTip st, pcoinsdbview st) chain'
     \<and> after (rest_getutxos h st u b) = st\<lparr>pcoinsTip := fst chain', pcoinsdbview := snd chain'\<rparr>"
proof -
  have same: "\<exists>chain'. cache_filled (pcoinsTip st, pcoinsdbview st) chain'
     \<and> st = st\<lparr>pcoinsTip := fst chain', pcoinsdbview := snd chain'\<rparr>"
    by (rule exI [of _ "(pcoinsTip st, pcoinsdbview st)"]) (simp add: cache_filled_refl)
  show ?thesis
  proof (cases "RPCIsInWarmup st")
    case (Some m)
    with same show ?thesis by (simp add: rest_getutxos_warmup)
  next
    case None
    show ?thesis
    proof (cases "getutxos_request h u b")
      case (Inl e)
      with same None show ?thesis by (simp add: rest_getutxos_rejected)
    next
      case (Inr x)
      then obtain rf cm vs where req: "getutxos_request h u b = Inr (rf, cm, vs)"
        by (cases x) auto
      show ?thesis
      proof (cases "length vs > MAX_GETUTXOS_OUTPOINTS")
        case True
        with same None req show ?thesis by (simp add: rest_getutxos_exceeded)
      next
        case False
        then have le: "length vs \<le> MAX_GETUTXOS_OUTPOINTS" by simp
        show ?thesis
          by (rule exI [of _ "viewChain (getutxos_lookup h st cm vs)"])
             (simp add: rest_getutxos_answered [OF None req le] getutxos_lookup_result(5))
      qed
    qed
  qed
qed


text \<open>
  C3, amended. Whatever the request, the handler changes nothing of the node but
  the entries of the cache \<open>*pcoinsTip\<close>: the warm-up flag, the chain, the pool
  and the backing store are as before. The cache differs at most by entries that
  were absent and now hold the record of the store, neither dirty nor fresh. A
  lookup through the authoritative stack alone answers after the query what it
  answered before it, the content of the stack, which does not depend on the
  pool. The parent that \<open>SetBackend\<close> replaces is that of the local \<open>view\<close>: it is
  the pool overlay exactly when \<open>fCheckMemPool\<close> is set.
\<close>

theorem getutxos_frame:
  "after (rest_getutxos h st u b) = st\<lparr>pcoinsTip := pcoinsTip (after (rest_getutxos h st u b))\<rparr>
   \<and> cache_filled (pcoinsTip st, pcoinsdbview st)
        (pcoinsTip (after (rest_getutxos h st u b)), pcoinsdbview st)
   \<and> fst (pcoinsTip_GetCoin p (pcoinsTip (after (rest_getutxos h st u b)),
                                pcoinsdbview (after (rest_getutxos h st u b))))
       = chain_coin (pcoinsTip st, pcoinsdbview st) p
   \<and> fst (pcoinsTip_GetCoin p (pcoinsTip st, pcoinsdbview st))
       = chain_coin (pcoinsTip st, pcoinsdbview st) p
   \<and> base (view (getutxos_lookup h st fCheckMemPool vOutPoints))
       = (if fCheckMemPool then viewMempool else viewDummy)"
proof -
  from rest_getutxos_after [of st h u b] obtain chain'
    where filled: "cache_filled (pcoinsTip st, pcoinsdbview st) chain'"
      and after: "after (rest_getutxos h st u b) = st\<lparr>pcoinsTip := fst chain', pcoinsdbview := snd chain'\<rparr>"
    by blast
  from filled have db: "snd chain' = pcoinsdbview st"
    by (simp add: cache_filled_def)
  have tip: "pcoinsTip (after (rest_getutxos h st u b)) = fst chain'"
    and db': "pcoinsdbview (after (rest_getutxos h st u b)) = pcoinsdbview st"
    by (simp_all add: after db)
  have chain': "chain' = (fst chain', pcoinsdbview st)"
    using db by (cases chain') simp
  have 1: "after (rest_getutxos h st u b) = st\<lparr>pcoinsTip := pcoinsTip (after (rest_getutxos h st u b))\<rparr>"
    by (simp add: after db)
  have 2: "cache_filled (pcoinsTip st, pcoinsdbview st)
        (pcoinsTip (after (rest_getutxos h st u b)), pcoinsdbview st)"
    using filled chain' by (simp add: tip)
  have answer: "fst (pcoinsTip_GetCoin p chain) = chain_coin chain p" for chain
    using pcoinsTip_GetCoin_result [of p chain] by (cases "pcoinsTip_GetCoin p chain") simp
  have 3: "fst (pcoinsTip_GetCoin p (pcoinsTip (after (rest_getutxos h st u b)),
                                pcoinsdbview (after (rest_getutxos h st u b))))
       = chain_coin (pcoinsTip st, pcoinsdbview st) p"
    using cache_filled_chain_coin [OF 2] by (simp add: answer db')
  show ?thesis
    by (intro conjI 1 2 3 answer getutxos_lookup_result(6))
qed

lemma sample_request_pool:
  "getutxos_request sample_helpers ''/checkmempool/cc-0/aa-0.json'' []
   = Inr (RF_JSON, True, [\<lparr>hash = 0xcc, nIndex = 0\<rparr>, \<lparr>hash = 0xaa, nIndex = 0\<rparr>])"
  by (simp add: request_eval helper_eval)

lemma sample_lookup_pool:
  "bitmapStringRepresentation (getutxos_lookup sample_helpers sample_node_pool True
             [\<lparr>hash = 0xcc, nIndex = 0\<rparr>, \<lparr>hash = 0xaa, nIndex = 0\<rparr>]) = ''11''"
  "outs (getutxos_lookup sample_helpers sample_node_pool True
             [\<lparr>hash = 0xcc, nIndex = 0\<rparr>, \<lparr>hash = 0xaa, nIndex = 0\<rparr>])
     = [\<lparr>nHeight = 0x7FFFFFFF, out = \<lparr>nValue = 7, scriptPubKey = []\<rparr>\<rparr>,
        \<lparr>nHeight = 100, out = \<lparr>nValue = 500000, scriptPubKey = [0x51]\<rparr>\<rparr>]"
  by (simp_all add: lookup_eval sample_node_pool_def sample_node_def sample_coin_def sample_helpers_def)


text \<open>
  On the sample node with the pooled transaction, a query with the overlay finds
  the pooled output and the confirmed one; afterwards the authoritative stack does
  not show the pooled output, and the store is the same.
\<close>

theorem getutxos_frame_witness:
  "outs (getutxos_lookup sample_helpers sample_node_pool True
           [\<lparr>hash = 0xcc, nIndex = 0\<rparr>, \<lparr>hash = 0xaa, nIndex = 0\<rparr>])
     = [\<lparr>nHeight = 0x7FFFFFFF, out = \<lparr>nValue = 7, scriptPubKey = []\<rparr>\<rparr>,
        \<lparr>nHeight = 100, out = \<lparr>nValue = 500000, scriptPubKey = [0x51]\<rparr>\<rparr>]
   \<and> fst (pcoinsTip_GetCoin \<lparr>hash = 0xcc, nIndex = 0\<rparr>
            (pcoinsTip (after (rest_getutxos sample_helpers sample_node_pool
                                 ''/checkmempool/cc-0/aa-0.json'' [])),
             pcoinsdbview (after (rest_getutxos sample_helpers sample_node_pool
                                 ''/checkmempool/cc-0/aa-0.json'' []))))
       = None
   \<and> pcoinsdbview (after (rest_getutxos sample_helpers sample_node_pool
                             ''/checkmempool/cc-0/aa-0.json'' []))
       = pcoinsdbview sample_node_pool
   \<and> base (view (getutxos_lookup sample_helpers sample_node_pool True
                    [\<lparr>hash = 0xcc, nIndex = 0\<rparr>, \<lparr>hash = 0xaa, nIndex = 0\<rparr>])) = viewMempool"
proof -
  note frame = getutxos_frame [of sample_helpers sample_node_pool "''/checkmempool/cc-0/aa-0.json''" "[]"
                                 "\<lparr>hash = 0xcc, nIndex = 0\<rparr>" True
                                 "[\<lparr>hash = 0xcc, nIndex = 0\<rparr>, \<lparr>hash = 0xaa, nIndex = 0\<rparr>]"]
  have none: "chain_coin (pcoinsTip sample_node_pool, pcoinsdbview sample_node_pool)
                \<lparr>hash = 0xcc, nIndex = 0\<rparr> = None"
    by (simp add: chain_coin_def sample_node_pool_def sample_node_def)
  from frame have "pcoinsdbview (after (rest_getutxos sample_helpers sample_node_pool
                             ''/checkmempool/cc-0/aa-0.json'' []))
       = pcoinsdbview (sample_node_pool\<lparr>pcoinsTip := pcoinsTip (after (rest_getutxos sample_helpers
                          sample_node_pool ''/checkmempool/cc-0/aa-0.json'' []))\<rparr>)"
    by simp
  then have db: "pcoinsdbview (after (rest_getutxos sample_helpers sample_node_pool
                             ''/checkmempool/cc-0/aa-0.json'' []))
       = pcoinsdbview sample_node_pool"
    by simp
  from frame none db sample_lookup_pool(2) show ?thesis
    by simp
qed


text \<open>
  C3, as stated, fails: on the sample node a query with the overlay reads output 0
  of \<open>0xaa\<close> through \<open>*pcoinsTip\<close>, which was empty and now caches that coin.
\<close>

theorem getutxos_fills_cache:
  "pcoinsTip (after (rest_getutxos sample_helpers sample_node ''/checkmempool/aa-0/bb-3.json'' []))
   \<noteq> pcoinsTip sample_node"
proof -
  have len: "length [\<lparr>hash = 0xaa, nIndex = 0\<rparr>, \<lparr>hash = 0xbb, nIndex = (3::32 word)\<rparr>]
               \<le> MAX_GETUTXOS_OUTPOINTS"
    by (simp add: MAX_GETUTXOS_OUTPOINTS_def)
  have a: "pcoinsTip (after (rest_getutxos sample_helpers sample_node ''/checkmempool/aa-0/bb-3.json'' []))
        = fst (viewChain (getutxos_lookup sample_helpers sample_node True
                 [\<lparr>hash = 0xaa, nIndex = 0\<rparr>, \<lparr>hash = 0xbb, nIndex = 3\<rparr>]))"
    by (simp add: rest_getutxos_answered [OF sample_node_fields(1) sample_request_2_checked len])
  have b: "fst (viewChain (getutxos_lookup sample_helpers sample_node True
                 [\<lparr>hash = 0xaa, nIndex = 0\<rparr>, \<lparr>hash = 0xbb, nIndex = 3\<rparr>])) \<lparr>hash = 0xaa, nIndex = 0\<rparr>
        = Some \<lparr>coin = Some sample_coin, DIRTY = False, FRESH = False\<rparr>"
    by (simp add: lookup_eval sample_node_def)
  have "pcoinsTip (after (rest_getutxos sample_helpers sample_node ''/checkmempool/aa-0/bb-3.json'' []))
          \<lparr>hash = 0xaa, nIndex = 0\<rparr>
        = Some \<lparr>coin = Some sample_coin, DIRTY = False, FRESH = False\<rparr>"
    unfolding a by (rule b)
  moreover have "pcoinsTip sample_node \<lparr>hash = 0xaa, nIndex = 0\<rparr> = None"
    by (simp add: sample_node_def)
  ultimately show ?thesis by auto
qed


section \<open>Theorems: the end-to-end scenario\<close>

text \<open>
  C2. The sample node holds output 0 of \<open>0xaa\<close>, confirmed at height 100 with the
  value 500000, and does not hold output 3 of \<open>0xbb\<close>. The request for these two
  outpoints without \<open>checkmempool\<close> is answered with the bitmap \<open>00\<close> and no coin
  record: \<open>view\<close> stays on \<open>viewDummy\<close>, which has no coin. The same request with
  \<open>checkmempool\<close> is answered with the bitmap \<open>10\<close> and the one record of height 100
  and value 500000.
\<close>

theorem getutxos_unchecked_scenario:
  "pcoinsdbview sample_node \<lparr>hash = 0xaa, nIndex = 0\<rparr> = Some sample_coin
   \<and> Coin.nHeight sample_coin = 100 \<and> nValue (Coin.out sample_coin) = 500000
   \<and> pcoinsdbview sample_node \<lparr>hash = 0xbb, nIndex = 3\<rparr> = None
   \<and> pcoinsTip sample_node = Map.empty \<and> mempool sample_node = []
   \<and> getutxos_request sample_helpers ''/aa-0/bb-3.json'' []
       = Inr (RF_JSON, False, [\<lparr>hash = 0xaa, nIndex = 0\<rparr>, \<lparr>hash = 0xbb, nIndex = 3\<rparr>])
   \<and> bitmap (getutxos_lookup sample_helpers sample_node False
                [\<lparr>hash = 0xaa, nIndex = 0\<rparr>, \<lparr>hash = 0xbb, nIndex = 3\<rparr>]) = [0]
   \<and> ret (rest_getutxos sample_helpers sample_node ''/aa-0/bb-3.json'' [])
       = Some (True, \<lparr>content_type = ''application/json'', status = HTTP_OK,
                      content = UniValue_write sample_helpers
                                  (objGetUTXOResponse sample_helpers 120 0x1234 ''00'' [])
                                @ ''\<newline>''\<rparr>)
   \<and> getutxos_request sample_helpers ''/checkmempool/aa-0/bb-3.json'' []
       = Inr (RF_JSON, True, [\<lparr>hash = 0xaa, nIndex = 0\<rparr>, \<lparr>hash = 0xbb, nIndex = 3\<rparr>])
   \<and> bitmap (getutxos_lookup sample_helpers sample_node True
                [\<lparr>hash = 0xaa, nIndex = 0\<rparr>, \<lparr>hash = 0xbb, nIndex = 3\<rparr>]) = [1]
   \<and> ret (rest_getutxos sample_helpers sample_node ''/checkmempool/aa-0/bb-3.json'' [])
       = Some (True, \<lparr>content_type = ''application/json'', status = HTTP_OK,
                      content = UniValue_write sample_helpers
                                  (objGetUTXOResponse sample_helpers 120 0x1234 ''10''
                                     [\<lparr>nHeight = 100,
                                       out = \<lparr>nValue = 500000, scriptPubKey = [0x51]\<rparr>\<rparr>])
                                @ ''\<newline>''\<rparr>)"
proof -
  have len: "length [\<lparr>hash = 0xaa, nIndex = 0\<rparr>, \<lparr>hash = 0xbb, nIndex = (3::32 word)\<rparr>]
               \<le> MAX_GETUTXOS_OUTPOINTS"
    by (simp add: MAX_GETUTXOS_OUTPOINTS_def)
  have state: "pcoinsdbview sample_node \<lparr>hash = 0xaa, nIndex = 0\<rparr> = Some sample_coin"
    "Coin.nHeight sample_coin = 100" "nValue (Coin.out sample_coin) = 500000"
    "pcoinsdbview sample_node \<lparr>hash = 0xbb, nIndex = 3\<rparr> = None"
    "pcoinsTip sample_node = Map.empty" "mempool sample_node = []"
    by (simp_all add: sample_node_def sample_coin_def)
  have r0: "ret (rest_getutxos sample_helpers sample_node ''/aa-0/bb-3.json'' [])
       = Some (True, \<lparr>content_type = ''application/json'', status = HTTP_OK,
                      content = UniValue_write sample_helpers
                                  (objGetUTXOResponse sample_helpers 120 0x1234 ''00'' [])
                                @ ''\<newline>''\<rparr>)"
    by (simp add: rest_getutxos_answered [OF sample_node_fields(1) sample_request_2 len]
                  getutxos_reply_def sample_node_fields sample_lookup_unchecked)
  have r1: "ret (rest_getutxos sample_helpers sample_node ''/checkmempool/aa-0/bb-3.json'' [])
       = Some (True, \<lparr>content_type = ''application/json'', status = HTTP_OK,
                      content = UniValue_write sample_helpers
                                  (objGetUTXOResponse sample_helpers 120 0x1234 ''10''
                                     [\<lparr>nHeight = 100,
                                       out = \<lparr>nValue = 500000, scriptPubKey = [0x51]\<rparr>\<rparr>])
                                @ ''\<newline>''\<rparr>)"
    by (simp add: rest_getutxos_answered [OF sample_node_fields(1) sample_request_2_checked len]
                  getutxos_reply_def sample_node_fields sample_lookup_checked)
  show ?thesis
    by (intro conjI state sample_request_2 sample_request_2_checked r0 r1
              sample_lookup_unchecked(1) sample_lookup_checked(1))
qed

section \<open>Theorems: the hex reply\<close>

lemma split_nonempty: "split sep s \<noteq> []"
  by (induction s) (auto split: list.splits)

lemma ParseDataFormat_params: "ParseDataFormat u = (params, rf) \<Longrightarrow> params \<noteq> []"
  by (auto simp: ParseDataFormat_def Let_def split_nonempty)

lemma uriParts_of_same:
  "pb \<noteq> [] \<Longrightarrow> ph \<noteq> [] \<Longrightarrow> pb ! 0 = ph ! 0 \<Longrightarrow> uriParts_of ph = uriParts_of pb"
  by (simp add: uriParts_of_def)

lemma getutxos_request_parsed:
  assumes "ParseDataFormat u = (params, rf)"
  shows "getutxos_request h u body =
     (if body = [] \<and> uriParts_of params = []
      then Inl (RESTERR HTTP_INTERNAL_SERVER_ERROR ''Error: empty request'')
      else (case getutxos_uri h (uriParts_of params) of
              Inl e \<Rightarrow> Inl e
            | Inr (fInputParsed, fCheckMemPool, vOutPoints) \<Rightarrow>
                (case getutxos_switch h rf body fInputParsed fCheckMemPool vOutPoints of
                   Inl e \<Rightarrow> Inl e
                 | Inr (fCheckMemPool', vOutPoints') \<Rightarrow> Inr (rf, fCheckMemPool', vOutPoints'))))"
  by (simp add: getutxos_request_def assms Let_def)

lemma getutxos_request_hex_of_bin:
  assumes pb: "ParseDataFormat uri_bin = (params_bin, RF_BINARY)"
      and ph: "ParseDataFormat uri_hex = (params_hex, RF_HEX)"
      and same: "params_bin ! 0 = params_hex ! 0"
      and empty: "ParseHex h [] = []"
      and bin: "getutxos_request h uri_bin (ParseHex h body) = Inr (rf, cm, vs)"
  shows "getutxos_request h uri_hex body = Inr (RF_HEX, cm, vs)"
proof -
  let ?U = "uriParts_of params_bin"
  have U: "uriParts_of params_hex = ?U"
    by (rule uriParts_of_same [OF ParseDataFormat_params [OF pb] ParseDataFormat_params [OF ph] same])
  note bin' = bin [unfolded getutxos_request_parsed [OF pb]]
  note hex = getutxos_request_parsed [OF ph, of h body, unfolded U]
  from bin' have nonempty: "\<not> (ParseHex h body = [] \<and> ?U = [])"
    by (auto split: if_splits)
  with empty have nonempty': "\<not> (body = [] \<and> ?U = [])"
    by auto
  show ?thesis
  proof (cases "getutxos_uri h ?U")
    case (Inl e)
    with bin' nonempty show ?thesis by (simp split: if_splits)
  next
    case (Inr x)
    then obtain fi cm0 vs0 where uri: "getutxos_uri h ?U = Inr (fi, cm0, vs0)"
      by (cases x) auto
    show ?thesis
    proof (cases "getutxos_raw h (ParseHex h body) fi cm0 vs0")
      case (Inl e)
      with bin' nonempty uri show ?thesis by (simp add: getutxos_switch_def split: if_splits)
    next
      case (Inr y)
      then obtain cm1 vs1 where raw: "getutxos_raw h (ParseHex h body) fi cm0 vs0 = Inr (cm1, vs1)"
        by (cases y) auto
      with bin' nonempty uri have "cm1 = cm" "vs1 = vs"
        by (simp_all add: getutxos_switch_def split: if_splits)
      with raw uri nonempty' show ?thesis
        unfolding hex by (simp add: getutxos_switch_def)
    qed
  qed
qed


text \<open>
  C6, amended. Take two requests with the same URI path (the text before the first
  dot of the URI part), one that selects the binary format and one that selects
  the hex format, the body of the binary request being the bytes that the body of
  the hex request decodes to (both bodies are empty for a request that names its
  outpoints in the URI). Whenever the handler returns \<open>true\<close> for the binary
  request, it returns \<open>true\<close> for the hex request, and the body of the hex reply is
  the hex encoding of the body of the binary reply, followed by a newline; the
  two calls make the same lookups and leave the same node. The hex decoding of the
  empty string is assumed to be empty.
\<close>

theorem hex_reply_encodes_binary_reply:
  assumes pb: "ParseDataFormat uri_bin = (params_bin, RF_BINARY)"
      and ph: "ParseDataFormat uri_hex = (params_hex, RF_HEX)"
      and same: "params_bin ! 0 = params_hex ! 0"
      and decoded: "ParseHex h body_hex = body_bin"
      and empty: "ParseHex h [] = []"
      and bin: "ret (rest_getutxos h st uri_bin body_bin) = Some (True, rb)"
  shows "\<exists>rh. ret (rest_getutxos h st uri_hex body_hex) = Some (True, rh)
           \<and> status rh = HTTP_OK
           \<and> content rh = HexStr h (content rb) @ ''\<newline>''
           \<and> coin_lookups (rest_getutxos h st uri_hex body_hex)
               = coin_lookups (rest_getutxos h st uri_bin body_bin)
           \<and> after (rest_getutxos h st uri_hex body_hex)
               = after (rest_getutxos h st uri_bin body_bin)"
proof -
  from rest_getutxos_success [OF bin] obtain rf cm vs
    where warm: "RPCIsInWarmup st = None"
      and req: "getutxos_request h uri_bin body_bin = Inr (rf, cm, vs)"
      and len: "length vs \<le> MAX_GETUTXOS_OUTPOINTS"
      and reply: "getutxos_reply h st rf (getutxos_lookup h st cm vs) = Some (True, rb)"
    by blast
  from getutxos_request_format [OF req] have rf: "rf = RF_BINARY"
    by (simp add: pb)
  note req' = getutxos_request_hex_of_bin [OF pb ph same empty req [folded decoded]]
  let ?L = "getutxos_lookup h st cm vs"
  from getutxos_reply_binary [OF reply [unfolded rf]] obtain tip
    where tip: "chainActive_Tip st = Some tip"
      and rb: "rb = \<lparr>content_type = ''application/octet-stream'', status = HTTP_OK,
                 content = ssGetUTXOResponse h (chainActive_Height st) tip (bitmap ?L) (outs ?L)\<rparr>"
    by blast
  let ?rh = "\<lparr>content_type = ''text/plain'', status = HTTP_OK,
              content = HexStr h (ssGetUTXOResponse h (chainActive_Height st) tip (bitmap ?L) (outs ?L))
                        @ ''\<newline>''\<rparr>"
  have hexreply: "getutxos_reply h st RF_HEX ?L = Some (True, ?rh)"
    by (simp add: getutxos_reply_def tip)
  note B = rest_getutxos_answered [OF warm req len]
  note H = rest_getutxos_answered [OF warm req' len]
  have 1: "ret (rest_getutxos h st uri_hex body_hex) = Some (True, ?rh)"
    unfolding H using hexreply by simp
  have 2: "status ?rh = HTTP_OK" by simp
  have 3: "content ?rh = HexStr h (content rb) @ ''\<newline>''" by (simp add: rb)
  have 4: "coin_lookups (rest_getutxos h st uri_hex body_hex)
               = coin_lookups (rest_getutxos h st uri_bin body_bin)"
    unfolding H B by simp
  have 5: "after (rest_getutxos h st uri_hex body_hex)
               = after (rest_getutxos h st uri_bin body_bin)"
    unfolding H B by simp
  show ?thesis
    by (rule exI [of _ ?rh]) (intro conjI 1 2 3 4 5)
qed

lemma sample_ParseHex:
  "ParseHex sample_helpers [] = []"
  "ParseHex sample_helpers ''zz'' = []"
  by (simp_all add: sample_helpers_def hex_value_def is_space_def upt_rec)

lemma sample_reply_bin:
  "ret (rest_getutxos sample_helpers sample_node ''/checkmempool/aa-0/bb-3.bin'' [])
     = Some (True, \<lparr>content_type = ''application/octet-stream'', status = HTTP_OK,
                    content = ssGetUTXOResponse sample_helpers 120 0x1234 [1]
                                [\<lparr>nHeight = 100, out = \<lparr>nValue = 500000, scriptPubKey = [0x51]\<rparr>\<rparr>]\<rparr>)"
proof -
  have len: "length [\<lparr>hash = 0xaa, nIndex = 0\<rparr>, \<lparr>hash = 0xbb, nIndex = (3::32 word)\<rparr>]
               \<le> MAX_GETUTXOS_OUTPOINTS"
    by (simp add: MAX_GETUTXOS_OUTPOINTS_def)
  show ?thesis
    by (simp add: rest_getutxos_answered [OF sample_node_fields(1) sample_request_2_bin len]
                  getutxos_reply_def sample_node_fields sample_lookup_checked)
qed

lemma le_value_simps:
  "le_value [] = 0"
  "le_value (c # cs) = of_char c + 256 * le_value cs"
  by (simp_all add: le_value_def)

lemma sample_body_decoded: "ParseHex sample_helpers sample_body_hex = sample_body"
  by (simp add: sample_body_hex_def sample_body_def sample_helpers_def hex_value_def
                is_space_def upt_rec)

lemma sample_request_body:
  "getutxos_request sample_helpers ''.bin'' sample_body
     = Inr (RF_BINARY, True, [\<lparr>hash = 0xaa, nIndex = 0\<rparr>])"
  by (simp add: sample_body_def request_eval sample_helpers_def WriteCompactSize_def le_bytes_def
                Unserialize_bool_impl_def Unserialize_vOutPoints_impl_def ReadCompactSize_def
                le_value_simps Let_def)

lemma sample_reply_body:
  "ret (rest_getutxos sample_helpers sample_node ''.bin'' sample_body)
     = Some (True, \<lparr>content_type = ''application/octet-stream'', status = HTTP_OK,
                    content = ssGetUTXOResponse sample_helpers 120 0x1234 [1]
                                [\<lparr>nHeight = 100, out = \<lparr>nValue = 500000, scriptPubKey = [0x51]\<rparr>\<rparr>]\<rparr>)"
proof -
  have len: "length [\<lparr>hash = 0xaa, nIndex = (0::32 word)\<rparr>] \<le> MAX_GETUTXOS_OUTPOINTS"
    by (simp add: MAX_GETUTXOS_OUTPOINTS_def)
  have L: "bitmap (getutxos_lookup sample_helpers sample_node True [\<lparr>hash = 0xaa, nIndex = 0\<rparr>]) = [1]"
    "outs (getutxos_lookup sample_helpers sample_node True [\<lparr>hash = 0xaa, nIndex = 0\<rparr>])
       = [\<lparr>nHeight = 100, out = \<lparr>nValue = 500000, scriptPubKey = [0x51]\<rparr>\<rparr>]"
    by (simp_all add: lookup_eval sample_node_def sample_coin_def)
  show ?thesis
    by (simp add: rest_getutxos_answered [OF sample_node_fields(1) sample_request_body len]
                  getutxos_reply_def sample_node_fields L)
qed

text \<open>
  On the sample node, for the request that names its two outpoints in the URI, and
  for the request that carries the outpoint (\<open>0xaa\<close>, 0) in its body: \<open>sample_body\<close>
  in the binary format, \<open>sample_body_hex\<close> in the hex format.
\<close>

theorem hex_reply_encodes_binary_reply_witness:
  "ParseDataFormat ''/checkmempool/aa-0/bb-3.bin'' = ([''/checkmempool/aa-0/bb-3'', ''bin''], RF_BINARY)
   \<and> ParseDataFormat ''/checkmempool/aa-0/bb-3.hex'' = ([''/checkmempool/aa-0/bb-3'', ''hex''], RF_HEX)
   \<and> ParseHex sample_helpers [] = []
   \<and> ret (rest_getutxos sample_helpers sample_node ''/checkmempool/aa-0/bb-3.bin'' [])
     = Some (True, \<lparr>content_type = ''application/octet-stream'', status = HTTP_OK,
                    content = ssGetUTXOResponse sample_helpers 120 0x1234 [1]
                                [\<lparr>nHeight = 100, out = \<lparr>nValue = 500000, scriptPubKey = [0x51]\<rparr>\<rparr>]\<rparr>)
   \<and> (\<exists>rh. ret (rest_getutxos sample_helpers sample_node ''/checkmempool/aa-0/bb-3.hex'' [])
               = Some (True, rh)
             \<and> status rh = HTTP_OK
             \<and> content rh = HexStr sample_helpers
                               (ssGetUTXOResponse sample_helpers 120 0x1234 [1]
                                  [\<lparr>nHeight = 100, out = \<lparr>nValue = 500000, scriptPubKey = [0x51]\<rparr>\<rparr>])
                             @ ''\<newline>'')
   \<and> ParseDataFormat ''.bin'' = ([[], ''bin''], RF_BINARY)
   \<and> ParseDataFormat ''.hex'' = ([[], ''hex''], RF_HEX)
   \<and> ParseHex sample_helpers sample_body_hex = sample_body
   \<and> ret (rest_getutxos sample_helpers sample_node ''.bin'' sample_body)
     = Some (True, \<lparr>content_type = ''application/octet-stream'', status = HTTP_OK,
                    content = ssGetUTXOResponse sample_helpers 120 0x1234 [1]
                                [\<lparr>nHeight = 100, out = \<lparr>nValue = 500000, scriptPubKey = [0x51]\<rparr>\<rparr>]\<rparr>)
   \<and> (\<exists>rh. ret (rest_getutxos sample_helpers sample_node ''.hex'' sample_body_hex)
               = Some (True, rh)
             \<and> status rh = HTTP_OK
             \<and> content rh = HexStr sample_helpers
                               (ssGetUTXOResponse sample_helpers 120 0x1234 [1]
                                  [\<lparr>nHeight = 100, out = \<lparr>nValue = 500000, scriptPubKey = [0x51]\<rparr>\<rparr>])
                             @ ''\<newline>'')"
proof -
  have pb: "ParseDataFormat ''/checkmempool/aa-0/bb-3.bin''
              = ([''/checkmempool/aa-0/bb-3'', ''bin''], RF_BINARY)"
    by (simp add: ParseDataFormat_def rf_names_def)
  have ph: "ParseDataFormat ''/checkmempool/aa-0/bb-3.hex''
              = ([''/checkmempool/aa-0/bb-3'', ''hex''], RF_HEX)"
    by (simp add: ParseDataFormat_def rf_names_def)
  have same: "[''/checkmempool/aa-0/bb-3'', ''bin''] ! 0 = [''/checkmempool/aa-0/bb-3'', ''hex''] ! 0"
    by simp
  from hex_reply_encodes_binary_reply [OF pb ph same sample_ParseHex(1) sample_ParseHex(1)
                                          sample_reply_bin]
  obtain rh
    where "ret (rest_getutxos sample_helpers sample_node ''/checkmempool/aa-0/bb-3.hex'' [])
               = Some (True, rh)"
      and "status rh = HTTP_OK"
      and "content rh = HexStr sample_helpers
                               (content \<lparr>content_type = ''application/octet-stream'', status = HTTP_OK,
                    content = ssGetUTXOResponse sample_helpers 120 0x1234 [1]
                                [\<lparr>nHeight = 100, out = \<lparr>nValue = 500000, scriptPubKey = [0x51]\<rparr>\<rparr>]\<rparr>)
                             @ ''\<newline>''"
    by blast
  then have uri: "\<exists>rh. ret (rest_getutxos sample_helpers sample_node ''/checkmempool/aa-0/bb-3.hex'' [])
               = Some (True, rh)
             \<and> status rh = HTTP_OK
             \<and> content rh = HexStr sample_helpers
                               (ssGetUTXOResponse sample_helpers 120 0x1234 [1]
                                  [\<lparr>nHeight = 100, out = \<lparr>nValue = 500000, scriptPubKey = [0x51]\<rparr>\<rparr>])
                             @ ''\<newline>''"
    by (intro exI [of _ rh]) simp
  have qb: "ParseDataFormat ''.bin'' = ([[], ''bin''], RF_BINARY)"
    by (simp add: ParseDataFormat_def rf_names_def)
  have qh: "ParseDataFormat ''.hex'' = ([[], ''hex''], RF_HEX)"
    by (simp add: ParseDataFormat_def rf_names_def)
  have same': "[[], ''bin''] ! 0 = [[], ''hex''] ! 0"
    by simp
  from hex_reply_encodes_binary_reply [OF qb qh same' sample_body_decoded sample_ParseHex(1)
                                          sample_reply_body]
  obtain rh'
    where "ret (rest_getutxos sample_helpers sample_node ''.hex'' sample_body_hex) = Some (True, rh')"
      and "status rh' = HTTP_OK"
      and "content rh' = HexStr sample_helpers
                               (content \<lparr>content_type = ''application/octet-stream'', status = HTTP_OK,
                    content = ssGetUTXOResponse sample_helpers 120 0x1234 [1]
                                [\<lparr>nHeight = 100, out = \<lparr>nValue = 500000, scriptPubKey = [0x51]\<rparr>\<rparr>]\<rparr>)
                             @ ''\<newline>''"
    by blast
  then have body: "\<exists>rh. ret (rest_getutxos sample_helpers sample_node ''.hex'' sample_body_hex)
               = Some (True, rh)
             \<and> status rh = HTTP_OK
             \<and> content rh = HexStr sample_helpers
                               (ssGetUTXOResponse sample_helpers 120 0x1234 [1]
                                  [\<lparr>nHeight = 100, out = \<lparr>nValue = 500000, scriptPubKey = [0x51]\<rparr>\<rparr>])
                             @ ''\<newline>''"
    by (intro exI [of _ rh']) simp
  from pb ph sample_ParseHex(1) sample_reply_bin uri qb qh sample_body_decoded sample_reply_body body
  show ?thesis
    by (intro conjI)
qed

lemma sample_HexStr:
  "HexStr sample_helpers s = HexStr_impl s"
  by (simp add: sample_helpers_def)

lemma sample_request_malformed:
  "getutxos_request sample_helpers ''/zz-0.bin'' []
     = Inl (RESTERR HTTP_INTERNAL_SERVER_ERROR ''Parse error'')"
  "getutxos_request sample_helpers ''/zz-0.hex'' []
     = Inl (RESTERR HTTP_INTERNAL_SERVER_ERROR ''Parse error'')"
  by (simp_all add: request_eval helper_eval)

lemma parse_error_head:
  "hd (HexStr_impl (''Parse error'' @ CRLF) @ ''\<newline>'') = CHR ''5''"
  by (simp add: HexStr_impl_def hex_char_def)

text \<open>
  Without the restriction to answered requests the statement fails. The request
  for the outpoint \<open>zz-0\<close>, whose transaction id is not hex, is refused in both
  formats with the same plain-text reply of \<open>RESTERR\<close> (line 409): the body of the
  hex reply is the text \<open>Parse error\<close> itself, not the hex encoding of the body of
  the binary reply.
\<close>

theorem error_reply_not_hex_encoded:
  "ret (rest_getutxos sample_helpers sample_node ''/zz-0.bin'' [])
     = Some (False, \<lparr>content_type = ''text/plain'', status = HTTP_INTERNAL_SERVER_ERROR,
                     content = ''Parse error'' @ CRLF\<rparr>)
   \<and> ret (rest_getutxos sample_helpers sample_node ''/zz-0.hex'' [])
     = Some (False, \<lparr>content_type = ''text/plain'', status = HTTP_INTERNAL_SERVER_ERROR,
                     content = ''Parse error'' @ CRLF\<rparr>)
   \<and> ''Parse error'' @ CRLF
       \<noteq> HexStr sample_helpers (''Parse error'' @ CRLF) @ ''\<newline>''"
proof (intro conjI)
  show "ret (rest_getutxos sample_helpers sample_node ''/zz-0.bin'' [])
     = Some (False, \<lparr>content_type = ''text/plain'', status = HTTP_INTERNAL_SERVER_ERROR,
                     content = ''Parse error'' @ CRLF\<rparr>)"
    unfolding rest_getutxos_rejected [OF sample_node_fields(1) sample_request_malformed(1)]
    by (simp add: RESTERR_def)
  show "ret (rest_getutxos sample_helpers sample_node ''/zz-0.hex'' [])
     = Some (False, \<lparr>content_type = ''text/plain'', status = HTTP_INTERNAL_SERVER_ERROR,
                     content = ''Parse error'' @ CRLF\<rparr>)"
    unfolding rest_getutxos_rejected [OF sample_node_fields(1) sample_request_malformed(2)]
    by (simp add: RESTERR_def)
  show "''Parse error'' @ CRLF
       \<noteq> HexStr sample_helpers (''Parse error'' @ CRLF) @ ''\<newline>''"
  proof
    assume "''Parse error'' @ CRLF
              = HexStr sample_helpers (''Parse error'' @ CRLF) @ ''\<newline>''"
    then have "hd (''Parse error'' @ CRLF)
                 = hd (HexStr_impl (''Parse error'' @ CRLF) @ ''\<newline>'')"
      unfolding sample_HexStr by (rule arg_cong)
    then show False unfolding parse_error_head by simp
  qed
qed


section \<open>Theorems: malformed requests\<close>

lemma parse_uriParts_None:
  "(parse_uriParts h parts acc = None) = list_ex (malformed_part h) parts"
  by (induction parts arbitrary: acc) (auto simp: malformed_part_def Let_def split: option.splits)

lemma getutxos_uri_malformed:
  assumes "malformed_uri h U"
  shows "getutxos_uri h U = Inl (RESTERR HTTP_INTERNAL_SERVER_ERROR ''Parse error'')"
proof -
  from assms have "U \<noteq> []"
    and "parse_uriParts h (drop (if U ! 0 = ''checkmempool'' then 1 else 0) U) [] = None"
    by (simp_all add: malformed_uri_def parse_uriParts_None)
  then show ?thesis
    by (simp add: getutxos_uri_def Let_def)
qed

lemma getutxos_uri_parsed:
  "U \<noteq> [] \<Longrightarrow> getutxos_uri h U = Inr (fi, cm, vs) \<Longrightarrow> fi \<and> vs \<noteq> []"
  by (auto simp: getutxos_uri_def Let_def split: option.splits if_splits)

lemma getutxos_uri_empty: "getutxos_uri h [] = Inr (False, False, [])"
  by (simp add: getutxos_uri_def)

lemma getutxos_raw_undeserializable:
  "s \<noteq> [] \<Longrightarrow> undeserializable h s \<Longrightarrow>
   getutxos_raw h s False cm vs = Inl (RESTERR HTTP_INTERNAL_SERVER_ERROR ''Parse error'')"
  by (auto simp: getutxos_raw_def undeserializable_def split: option.splits)

lemma getutxos_raw_combination:
  "s \<noteq> [] \<Longrightarrow>
   getutxos_raw h s True cm vs =
     Inl (RESTERR HTTP_INTERNAL_SERVER_ERROR
            ''Combination of URI scheme inputs and raw post data is not allowed'')"
  by (simp add: getutxos_raw_def)

lemma parse_uriParts_length:
  "parse_uriParts h ps acc = Some r \<Longrightarrow> length r = length acc + length ps"
  by (induction ps arbitrary: acc) (auto simp: Let_def split: option.splits if_splits)

lemma getutxos_uri_checkmempool:
  "getutxos_uri h [''checkmempool'']
     = Inl (RESTERR HTTP_INTERNAL_SERVER_ERROR ''Error: empty request'')"
  by (simp add: getutxos_uri_def)

lemma getutxos_uri_wellformed:
  assumes "U \<noteq> []" and "\<not> malformed_uri h U" and "U \<noteq> [''checkmempool'']"
  shows "\<exists>cm vs. getutxos_uri h U = Inr (True, cm, vs)"
proof -
  let ?ps = "drop (if U ! 0 = ''checkmempool'' then 1 else 0) U"
  from assms(1,2) have "parse_uriParts h ?ps [] \<noteq> None"
    by (simp add: malformed_uri_def parse_uriParts_None)
  then obtain vs where vs: "parse_uriParts h ?ps [] = Some vs"
    by auto
  from assms(1,3) have "?ps \<noteq> []"
    by (cases U) (auto split: if_splits)
  with parse_uriParts_length [OF vs] have "vs \<noteq> []"
    by auto
  with vs assms(1) show ?thesis
    by (simp add: getutxos_uri_def Let_def)
qed

lemma getutxos_request_malformed:
  assumes "ParseDataFormat strURIPart = (params, rf)"
      and "malformed_uri h (uriParts_of params)
           \<or> ((rf = RF_BINARY \<or> rf = RF_HEX) \<and> body \<noteq> []
               \<and> (if rf = RF_HEX then ParseHex h body else body) \<noteq> []
               \<and> undeserializable h (if rf = RF_HEX then ParseHex h body else body))"
  shows "getutxos_request h strURIPart body
           = Inl (RESTERR HTTP_INTERNAL_SERVER_ERROR
                    (if malformed_uri h (uriParts_of params) \<or> uriParts_of params = []
                     then ''Parse error''
                     else if uriParts_of params = [''checkmempool'']
                     then ''Error: empty request''
                     else ''Combination of URI scheme inputs and raw post data is not allowed''))"
proof (cases "malformed_uri h (uriParts_of params)")
  case True
  then have "uriParts_of params \<noteq> []" by (simp add: malformed_uri_def)
  with getutxos_uri_malformed [OF True] assms(1) True show ?thesis
    by (simp add: getutxos_request_def Let_def)
next
  case False
  let ?U = "uriParts_of params"
  let ?B = "if rf = RF_HEX then ParseHex h body else body"
  from False assms(2) have rf: "rf = RF_BINARY \<or> rf = RF_HEX" and body: "body \<noteq> []"
    and B: "?B \<noteq> []" and u: "undeserializable h ?B"
    by simp_all
  from rf have sw: "getutxos_switch h rf body fi cm vs = getutxos_raw h ?B fi cm vs" for fi cm vs
    by (auto simp: getutxos_switch_def)
  consider (none) "?U = []" | (flag) "?U = [''checkmempool'']"
    | (outpoints) "?U \<noteq> []" "?U \<noteq> [''checkmempool'']"
    by blast
  then show ?thesis
  proof cases
    case none
    have "getutxos_raw h ?B False False []
            = Inl (RESTERR HTTP_INTERNAL_SERVER_ERROR ''Parse error'')"
      by (rule getutxos_raw_undeserializable [OF B u])
    with none body assms(1) False show ?thesis
      by (simp add: getutxos_request_def Let_def getutxos_uri_empty sw)
  next
    case flag
    with body assms(1) False show ?thesis
      by (simp add: getutxos_request_def Let_def getutxos_uri_checkmempool)
  next
    case outpoints
    from getutxos_uri_wellformed [OF outpoints(1) False outpoints(2)] obtain cm vs
      where uri: "getutxos_uri h ?U = Inr (True, cm, vs)"
      by blast
    have "getutxos_raw h ?B True cm vs
            = Inl (RESTERR HTTP_INTERNAL_SERVER_ERROR
                     ''Combination of URI scheme inputs and raw post data is not allowed'')"
      by (rule getutxos_raw_combination [OF B])
    with outpoints uri assms(1) False show ?thesis
      by (simp add: getutxos_request_def Let_def sw)
  qed
qed


text \<open>
  C7, amended. Let the URI of a request contain a malformed outpoint, or let the
  request be in the binary or hex format and carry a body whose bytes (in the hex
  format: the bytes that the body decodes to) are not empty and cannot be
  deserialized. Then the handler returns \<open>false\<close> with an error reply, makes no
  coin lookup, builds no result and leaves the node as it was; so no malformed
  outpoint reaches the coin view. While the node warms up the reply is the
  warm-up error of line 105. Once the warm-up is over it is the parse error (lines
  409 and 443) when the URI contains a malformed outpoint or has no part at all;
  when the URI is well formed, the request with the undeserializable body gets
  the error of line 418 if the URI is \<open>checkmempool\<close> alone, and the error of line
  434 if the URI names outpoints.
\<close>

theorem malformed_request_rejected:
  assumes "ParseDataFormat strURIPart = (params, rf)"
      and "malformed_uri h (uriParts_of params)
           \<or> ((rf = RF_BINARY \<or> rf = RF_HEX) \<and> body \<noteq> []
               \<and> (if rf = RF_HEX then ParseHex h body else body) \<noteq> []
               \<and> undeserializable h (if rf = RF_HEX then ParseHex h body else body))"
  shows "(RPCIsInWarmup st = None \<longrightarrow>
            ret (rest_getutxos h st strURIPart body)
              = Some (RESTERR HTTP_INTERNAL_SERVER_ERROR
                        (if malformed_uri h (uriParts_of params) \<or> uriParts_of params = []
                         then ''Parse error''
                         else if uriParts_of params = [''checkmempool'']
                         then ''Error: empty request''
                         else ''Combination of URI scheme inputs and raw post data is not allowed'')))
         \<and> (\<forall>m. RPCIsInWarmup st = Some m \<longrightarrow>
               ret (rest_getutxos h st strURIPart body)
                 = Some (RESTERR HTTP_SERVICE_UNAVAILABLE (''Service temporarily unavailable: '' @ m)))
         \<and> (\<exists>e. ret (rest_getutxos h st strURIPart body) = Some (False, e) \<and> status e \<noteq> HTTP_OK)
         \<and> coin_lookups (rest_getutxos h st strURIPart body) = []
         \<and> built (rest_getutxos h st strURIPart body) = None
         \<and> after (rest_getutxos h st strURIPart body) = st"
proof (cases "RPCIsInWarmup st")
  case None
  from rest_getutxos_rejected [OF None getutxos_request_malformed [OF assms]]
  show ?thesis by (simp add: RESTERR_def None)
next
  case (Some m)
  from rest_getutxos_warmup [OF Some] show ?thesis
    by (simp add: Some RESTERR_def)
qed


lemma read_outpoints_short: "0 < k \<Longrightarrow> length s < 36 \<Longrightarrow> read_outpoints k s = None"
  by (cases k) simp_all

lemma sample_undeserializable: "undeserializable sample_helpers ''z''"
  by (simp add: undeserializable_def sample_helpers_def WriteCompactSize_def le_bytes_def
                Unserialize_bool_impl_def Unserialize_vOutPoints_impl_def ReadCompactSize_def
                read_outpoints_short Let_def)

lemma sample_formats:
  "ParseDataFormat ''/zz-0.json'' = ([''/zz-0'', ''json''], RF_JSON)"
  "ParseDataFormat ''.bin'' = ([[], ''bin''], RF_BINARY)"
  "ParseDataFormat ''.hex'' = ([[], ''hex''], RF_HEX)"
  "ParseDataFormat ''/aa-0.bin'' = ([''/aa-0'', ''bin''], RF_BINARY)"
  "ParseDataFormat ''/checkmempool/aa-0.hex'' = ([''/checkmempool/aa-0'', ''hex''], RF_HEX)"
  "ParseDataFormat ''/checkmempool.bin'' = ([''/checkmempool'', ''bin''], RF_BINARY)"
  by (simp_all add: ParseDataFormat_def rf_names_def)

lemma sample_uriParts:
  "uriParts_of [''/zz-0'', ''json''] = [''zz-0'']"
  "uriParts_of [[], ''bin''] = []"
  "uriParts_of [[], ''hex''] = []"
  "uriParts_of [''/aa-0'', ''bin''] = [''aa-0'']"
  "uriParts_of [''/checkmempool/aa-0'', ''hex''] = [''checkmempool'', ''aa-0'']"
  "uriParts_of [''/checkmempool'', ''bin''] = [''checkmempool'']"
  by (simp_all add: uriParts_of_def substr_def npos_def)

lemma sample_malformed:
  "malformed_uri sample_helpers [''zz-0'']"
  "\<not> malformed_uri sample_helpers [''aa-0'']"
  "\<not> malformed_uri sample_helpers []"
  "\<not> malformed_uri sample_helpers [''checkmempool'']"
  by (simp_all add: malformed_uri_def malformed_part_def substr_def str_find_def npos_def helper_eval)


text \<open>
  On the sample node: the URI part \<open>zz-0\<close> has a transaction id that is not hex, and
  the one-byte binary body \<open>z\<close> cannot be deserialized. The request for \<open>zz-0\<close> and
  the request with this body and no URI part get the parse error; with the URI
  \<open>checkmempool\<close> the body gets the error of line 418.
\<close>

theorem malformed_request_rejected_witness:
  "ParseDataFormat ''/zz-0.json'' = ([''/zz-0'', ''json''], RF_JSON)
   \<and> malformed_uri sample_helpers (uriParts_of [''/zz-0'', ''json''])
   \<and> ret (rest_getutxos sample_helpers sample_node ''/zz-0.json'' [])
       = Some (RESTERR HTTP_INTERNAL_SERVER_ERROR ''Parse error'')
   \<and> coin_lookups (rest_getutxos sample_helpers sample_node ''/zz-0.json'' []) = []
   \<and> ParseDataFormat ''.bin'' = ([[], ''bin''], RF_BINARY)
   \<and> uriParts_of [[], ''bin''] = []
   \<and> undeserializable sample_helpers ''z''
   \<and> ret (rest_getutxos sample_helpers sample_node ''.bin'' ''z'')
       = Some (RESTERR HTTP_INTERNAL_SERVER_ERROR ''Parse error'')
   \<and> after (rest_getutxos sample_helpers sample_node ''.bin'' ''z'') = sample_node
   \<and> ParseDataFormat ''/checkmempool.bin'' = ([''/checkmempool'', ''bin''], RF_BINARY)
   \<and> uriParts_of [''/checkmempool'', ''bin''] = [''checkmempool'']
   \<and> ret (rest_getutxos sample_helpers sample_node ''/checkmempool.bin'' ''z'')
       = Some (RESTERR HTTP_INTERNAL_SERVER_ERROR ''Error: empty request'')
   \<and> built (rest_getutxos sample_helpers sample_node ''/checkmempool.bin'' ''z'') = None"
proof -
  have m: "malformed_uri sample_helpers (uriParts_of [''/zz-0'', ''json''])"
    by (simp add: sample_uriParts sample_malformed)
  have u: "(RF_BINARY = RF_BINARY \<or> RF_BINARY = RF_HEX) \<and> ''z'' \<noteq> []
               \<and> (if RF_BINARY = RF_HEX then ParseHex sample_helpers ''z'' else ''z'') \<noteq> []
               \<and> undeserializable sample_helpers (if RF_BINARY = RF_HEX then ParseHex sample_helpers ''z'' else ''z'')"
    by (simp add: sample_undeserializable)
  note a = malformed_request_rejected [OF sample_formats(1) disjI1, OF m,
             where st = sample_node and body = "[]"]
  note b = malformed_request_rejected [OF sample_formats(2) disjI2, OF u, where st = sample_node]
  note c = malformed_request_rejected [OF sample_formats(6) disjI2, OF u, where st = sample_node]
  have 1: "ret (rest_getutxos sample_helpers sample_node ''/zz-0.json'' [])
       = Some (RESTERR HTTP_INTERNAL_SERVER_ERROR ''Parse error'')"
    using a [THEN conjunct1] m by (simp add: sample_node_fields(1))
  have 2: "coin_lookups (rest_getutxos sample_helpers sample_node ''/zz-0.json'' []) = []"
    using a by simp
  have 3: "ret (rest_getutxos sample_helpers sample_node ''.bin'' ''z'')
       = Some (RESTERR HTTP_INTERNAL_SERVER_ERROR ''Parse error'')"
    using b [THEN conjunct1] by (simp add: sample_node_fields(1) sample_uriParts)
  have 4: "after (rest_getutxos sample_helpers sample_node ''.bin'' ''z'') = sample_node"
    using b by simp
  have 5: "ret (rest_getutxos sample_helpers sample_node ''/checkmempool.bin'' ''z'')
       = Some (RESTERR HTTP_INTERNAL_SERVER_ERROR ''Error: empty request'')"
    using c [THEN conjunct1]
    by (simp add: sample_node_fields(1) sample_uriParts sample_malformed)
  have 6: "built (rest_getutxos sample_helpers sample_node ''/checkmempool.bin'' ''z'') = None"
    using c by simp
  from sample_formats(1) m 1 2 sample_formats(2) sample_uriParts(2) sample_undeserializable 3 4
       sample_formats(6) sample_uriParts(6) 5 6
  show ?thesis by (intro conjI)
qed


text \<open>
  C7, as stated, fails: the body \<open>zz\<close> of a request in the hex format is not hex and
  decodes to no byte at all, which could not be deserialized either; the handler
  takes the request for one without a body and answers it with an empty result.
  And while the node warms up, the request for the malformed outpoint \<open>zz-0\<close> is
  refused by \<open>CheckWarmup\<close> (line 105) before the URI is read, with status 503 and
  not with the parse error. The binary body \<open>z\<close>, which cannot be deserialized, is
  refused with the error of line 418 when the URI is \<open>checkmempool\<close> alone and with
  the error of line 434 when the URI names the outpoint \<open>aa-0\<close>: neither is the parse
  error.
\<close>

theorem garbage_hex_body_accepted:
  "\<not> IsHex sample_helpers ''zz''
   \<and> ParseHex sample_helpers ''zz'' = []
   \<and> undeserializable sample_helpers (ParseHex sample_helpers ''zz'')
   \<and> ret (rest_getutxos sample_helpers sample_node ''.hex'' ''zz'')
       = Some (True, \<lparr>content_type = ''text/plain'', status = HTTP_OK,
                      content = HexStr sample_helpers
                                  (ssGetUTXOResponse sample_helpers 120 0x1234 [] [])
                                @ ''\<newline>''\<rparr>)
   \<and> malformed_uri sample_helpers (uriParts_of (fst (ParseDataFormat ''/zz-0.json'')))
   \<and> ret (rest_getutxos sample_helpers
             (sample_node\<lparr>RPCIsInWarmup := Some ''Loading block index...''\<rparr>) ''/zz-0.json'' [])
       = Some (False, \<lparr>content_type = ''text/plain'', status = HTTP_SERVICE_UNAVAILABLE,
                       content = ''Service temporarily unavailable: Loading block index...''
                                 @ CRLF\<rparr>)
   \<and> undeserializable sample_helpers ''z''
   \<and> ret (rest_getutxos sample_helpers sample_node ''/checkmempool.bin'' ''z'')
       = Some (False, \<lparr>content_type = ''text/plain'', status = HTTP_INTERNAL_SERVER_ERROR,
                       content = ''Error: empty request'' @ CRLF\<rparr>)
   \<and> ret (rest_getutxos sample_helpers sample_node ''/aa-0.bin'' ''z'')
       = Some (False, \<lparr>content_type = ''text/plain'', status = HTTP_INTERNAL_SERVER_ERROR,
                       content = ''Combination of URI scheme inputs and raw post data is not allowed''
                                 @ CRLF\<rparr>)"
proof -
  have flag: "getutxos_request sample_helpers ''/checkmempool.bin'' ''z''
                = Inl (RESTERR HTTP_INTERNAL_SERVER_ERROR ''Error: empty request'')"
    by (simp add: request_eval helper_eval)
  have comb: "getutxos_request sample_helpers ''/aa-0.bin'' ''z''
                = Inl (RESTERR HTTP_INTERNAL_SERVER_ERROR
                         ''Combination of URI scheme inputs and raw post data is not allowed'')"
    by (simp add: request_eval helper_eval)
  have e1: "ret (rest_getutxos sample_helpers sample_node ''/checkmempool.bin'' ''z'')
       = Some (False, \<lparr>content_type = ''text/plain'', status = HTTP_INTERNAL_SERVER_ERROR,
                       content = ''Error: empty request'' @ CRLF\<rparr>)"
    unfolding rest_getutxos_rejected [OF sample_node_fields(1) flag]
    by (simp add: RESTERR_def)
  have e2: "ret (rest_getutxos sample_helpers sample_node ''/aa-0.bin'' ''z'')
       = Some (False, \<lparr>content_type = ''text/plain'', status = HTTP_INTERNAL_SERVER_ERROR,
                       content = ''Combination of URI scheme inputs and raw post data is not allowed''
                                 @ CRLF\<rparr>)"
    unfolding rest_getutxos_rejected [OF sample_node_fields(1) comb]
    by (simp add: RESTERR_def)
  have req: "getutxos_request sample_helpers ''.hex'' ''zz'' = Inr (RF_HEX, False, [])"
    by (simp add: getutxos_request_def sample_formats sample_uriParts getutxos_uri_empty
                  getutxos_switch_def getutxos_raw_def sample_ParseHex Let_def)
  have len: "length ([] :: COutPoint list) \<le> MAX_GETUTXOS_OUTPOINTS" by simp
  have warming: "RPCIsInWarmup (sample_node\<lparr>RPCIsInWarmup := Some ''Loading block index...''\<rparr>)
                   = Some ''Loading block index...''"
    by simp
  have w: "ret (rest_getutxos sample_helpers
             (sample_node\<lparr>RPCIsInWarmup := Some ''Loading block index...''\<rparr>) ''/zz-0.json'' [])
       = Some (False, \<lparr>content_type = ''text/plain'', status = HTTP_SERVICE_UNAVAILABLE,
                       content = ''Service temporarily unavailable: Loading block index...''
                                 @ CRLF\<rparr>)"
    unfolding rest_getutxos_warmup [OF warming]
    by (simp add: RESTERR_def)
  have r: "ret (rest_getutxos sample_helpers sample_node ''.hex'' ''zz'')
       = Some (True, \<lparr>content_type = ''text/plain'', status = HTTP_OK,
                      content = HexStr sample_helpers
                                  (ssGetUTXOResponse sample_helpers 120 0x1234 [] [])
                                @ ''\<newline>''\<rparr>)"
    by (simp add: rest_getutxos_answered [OF sample_node_fields(1) req len]
                  getutxos_reply_def sample_node_fields getutxos_lookup_def)
  have h: "\<not> IsHex sample_helpers ''zz''"
    by (simp add: helper_eval)
  have u: "undeserializable sample_helpers (ParseHex sample_helpers ''zz'')"
    unfolding sample_ParseHex(2)
    by (simp add: undeserializable_def sample_helpers_def WriteCompactSize_def
                  le_bytes_def Unserialize_bool_impl_def Unserialize_vOutPoints_impl_def
                  ReadCompactSize_def Let_def)
  have m: "malformed_uri sample_helpers (uriParts_of (fst (ParseDataFormat ''/zz-0.json'')))"
    by (simp add: sample_formats sample_uriParts sample_malformed)
  from h sample_ParseHex(2) u r m w sample_undeserializable e1 e2 show ?thesis
    by (intro conjI)
qed


section \<open>Theorems: outpoints in the URI and a body\<close>

text \<open>
  C9, amended. Let a request in the binary or hex format name outpoints in its URI
  and carry a body whose bytes (in the hex format: the bytes that the body decodes
  to) are not empty. Then the handler returns \<open>false\<close> with an error reply, makes no
  coin lookup and leaves the node as it was; once the warm-up is over, and when
  the URI parts are outpoints that parse, the reply is the error of line 434.
\<close>

theorem uri_and_body_rejected:
  assumes "ParseDataFormat strURIPart = (params, rf)"
      and "rf = RF_BINARY \<or> rf = RF_HEX"
      and "uriParts_of params \<noteq> []"
      and "(if rf = RF_HEX then ParseHex h body else body) \<noteq> []"
  shows "(\<exists>e. ret (rest_getutxos h st strURIPart body) = Some (False, e) \<and> status e \<noteq> HTTP_OK)
         \<and> coin_lookups (rest_getutxos h st strURIPart body) = []
         \<and> after (rest_getutxos h st strURIPart body) = st
         \<and> (RPCIsInWarmup st = None \<and> \<not> malformed_uri h (uriParts_of params)
              \<and> uriParts_of params \<noteq> [''checkmempool''] \<longrightarrow>
             ret (rest_getutxos h st strURIPart body)
               = Some (RESTERR HTTP_INTERNAL_SERVER_ERROR
                         ''Combination of URI scheme inputs and raw post data is not allowed''))"
proof -
  let ?U = "uriParts_of params"
  let ?B = "if rf = RF_HEX then ParseHex h body else body"
  have sw: "getutxos_switch h rf body True cm vs =
          Inl (RESTERR HTTP_INTERNAL_SERVER_ERROR
                 ''Combination of URI scheme inputs and raw post data is not allowed'')" for cm vs
    using assms(2,4) getutxos_raw_combination [of ?B h cm vs]
    by (auto simp: getutxos_switch_def)
  have req: "\<exists>e. getutxos_request h strURIPart body = Inl e
               \<and> (\<not> malformed_uri h ?U \<and> ?U \<noteq> [''checkmempool''] \<longrightarrow>
                    e = RESTERR HTTP_INTERNAL_SERVER_ERROR
                          ''Combination of URI scheme inputs and raw post data is not allowed'')"
  proof (cases "getutxos_uri h ?U")
    case (Inl e)
    have "\<not> malformed_uri h ?U \<and> ?U \<noteq> [''checkmempool''] \<longrightarrow> False"
    proof
      assume a: "\<not> malformed_uri h ?U \<and> ?U \<noteq> [''checkmempool'']"
      with assms(3) have ok: "parse_uriParts h (drop (if ?U ! 0 = ''checkmempool'' then 1 else 0) ?U) [] \<noteq> None"
        by (simp add: malformed_uri_def parse_uriParts_None)
      then obtain vs where vs: "parse_uriParts h (drop (if ?U ! 0 = ''checkmempool'' then 1 else 0) ?U) [] = Some vs"
        by auto
      have "vs \<noteq> []"
      proof (cases "drop (if ?U ! 0 = ''checkmempool'' then 1 else 0) ?U")
        case Nil
        with assms(3) a show ?thesis
          by (cases ?U) (auto split: if_splits)
      next
        case (Cons part rest)
        have grow: "parse_uriParts h ps acc = Some r \<Longrightarrow> length r = length acc + length ps" for ps acc r
          by (induction ps arbitrary: acc) (auto simp: Let_def split: option.splits if_splits)
        from grow [OF vs] Cons show ?thesis by auto
      qed
      with vs assms(3) Inl show False
        by (simp add: getutxos_uri_def Let_def)
    qed
    with Inl assms(1,3) show ?thesis
      by (auto simp: getutxos_request_def Let_def)
  next
    case (Inr x)
    then obtain fi cm vs where uri: "getutxos_uri h ?U = Inr (fi, cm, vs)"
      by (cases x) auto
    from getutxos_uri_parsed [OF assms(3) uri] have "fi" by simp
    with uri sw [of cm vs] assms(1,3) show ?thesis
      by (simp add: getutxos_request_def Let_def)
  qed
  then obtain e where e: "getutxos_request h strURIPart body = Inl e"
    and comb: "\<not> malformed_uri h ?U \<and> ?U \<noteq> [''checkmempool''] \<longrightarrow>
                    e = RESTERR HTTP_INTERNAL_SERVER_ERROR
                          ''Combination of URI scheme inputs and raw post data is not allowed''"
    by blast
  show ?thesis
  proof (cases "RPCIsInWarmup st")
    case None
    from rest_getutxos_rejected [OF None e] getutxos_request_fails [OF e] comb
    show ?thesis by (cases e) (simp add: None)
  next
    case (Some m)
    from rest_getutxos_warmup [OF Some] show ?thesis
      by (simp add: Some RESTERR_def)
  qed
qed

text \<open>
  On the sample node: the binary request for \<open>aa-0\<close> with the body \<open>z\<close> is rejected.
\<close>

theorem uri_and_body_rejected_witness:
  "ParseDataFormat ''/aa-0.bin'' = ([''/aa-0'', ''bin''], RF_BINARY)
   \<and> uriParts_of [''/aa-0'', ''bin''] \<noteq> []
   \<and> ''z'' \<noteq> []
   \<and> ret (rest_getutxos sample_helpers sample_node ''/aa-0.bin'' ''z'')
       = Some (RESTERR HTTP_INTERNAL_SERVER_ERROR
                 ''Combination of URI scheme inputs and raw post data is not allowed'')
   \<and> coin_lookups (rest_getutxos sample_helpers sample_node ''/aa-0.bin'' ''z'') = []
   \<and> after (rest_getutxos sample_helpers sample_node ''/aa-0.bin'' ''z'') = sample_node"
proof -
  have u: "uriParts_of [''/aa-0'', ''bin''] \<noteq> []" by (simp add: sample_uriParts)
  have b: "(if RF_BINARY = RF_HEX then ParseHex sample_helpers ''z'' else ''z'') \<noteq> []" by simp
  note t = uri_and_body_rejected [OF sample_formats(4) disjI1 u b, OF refl, where st = sample_node]
  from t u sample_formats(4) sample_malformed(2) sample_node_fields(1) show ?thesis
    by (simp add: sample_uriParts)
qed


text \<open>
  C9, as stated, fails: a request in the hex format that names an outpoint in its
  URI and carries the body \<open>zz\<close> is answered, and the outpoint is looked up. The
  body is not empty, but it decodes to no byte, and line 431 tests the decoded
  bytes.
\<close>

theorem garbage_hex_body_with_uri_accepted:
  "snd (ParseDataFormat ''/checkmempool/aa-0.hex'') = RF_HEX
   \<and> uriParts_of (fst (ParseDataFormat ''/checkmempool/aa-0.hex'')) = [''checkmempool'', ''aa-0'']
   \<and> ''zz'' \<noteq> []
   \<and> ret (rest_getutxos sample_helpers sample_node ''/checkmempool/aa-0.hex'' ''zz'')
       = Some (True, \<lparr>content_type = ''text/plain'', status = HTTP_OK,
                      content = HexStr sample_helpers
                                  (ssGetUTXOResponse sample_helpers 120 0x1234 [1]
                                     [\<lparr>nHeight = 100,
                                       out = \<lparr>nValue = 500000, scriptPubKey = [0x51]\<rparr>\<rparr>])
                                @ ''\<newline>''\<rparr>)
   \<and> coin_lookups (rest_getutxos sample_helpers sample_node ''/checkmempool/aa-0.hex'' ''zz'')
       = [\<lparr>hash = 0xaa, nIndex = 0\<rparr>]"
proof -
  have req: "getutxos_request sample_helpers ''/checkmempool/aa-0.hex'' ''zz''
               = Inr (RF_HEX, True, [\<lparr>hash = 0xaa, nIndex = 0\<rparr>])"
    by (simp add: request_eval helper_eval)
  have len: "length [\<lparr>hash = 0xaa, nIndex = (0::32 word)\<rparr>] \<le> MAX_GETUTXOS_OUTPOINTS"
    by (simp add: MAX_GETUTXOS_OUTPOINTS_def)
  have L: "bitmap (getutxos_lookup sample_helpers sample_node True [\<lparr>hash = 0xaa, nIndex = 0\<rparr>]) = [1]"
    "outs (getutxos_lookup sample_helpers sample_node True [\<lparr>hash = 0xaa, nIndex = 0\<rparr>])
       = [\<lparr>nHeight = 100, out = \<lparr>nValue = 500000, scriptPubKey = [0x51]\<rparr>\<rparr>]"
    by (simp_all add: lookup_eval sample_node_def sample_coin_def)
  note A = rest_getutxos_answered [OF sample_node_fields(1) req len]
  have r: "ret (rest_getutxos sample_helpers sample_node ''/checkmempool/aa-0.hex'' ''zz'')
       = Some (True, \<lparr>content_type = ''text/plain'', status = HTTP_OK,
                      content = HexStr sample_helpers
                                  (ssGetUTXOResponse sample_helpers 120 0x1234 [1]
                                     [\<lparr>nHeight = 100,
                                       out = \<lparr>nValue = 500000, scriptPubKey = [0x51]\<rparr>\<rparr>])
                                @ ''\<newline>''\<rparr>)"
    by (simp add: A getutxos_reply_def sample_node_fields L)
  have l: "coin_lookups (rest_getutxos sample_helpers sample_node ''/checkmempool/aa-0.hex'' ''zz'')
       = [\<lparr>hash = 0xaa, nIndex = 0\<rparr>]"
    by (simp add: A lookups_getutxos_lookup)
  from r l show ?thesis
    by (simp add: sample_formats sample_uriParts)
qed

section \<open>Theorems: the uniqueness index\<close>

lemma index_run_keeps:
  "idx f = Some v \<Longrightarrow> CallRemove f \<notin> set cs \<Longrightarrow> index_run cs idx f = Some v"
proof (induction cs arbitrary: idx)
  case Nil
  then show ?case by simp
next
  case (Cons c cs)
  show ?case
  proof (cases c)
    case (CallInsert g k)
    with Cons.prems have "snd (Insert g k idx) f = Some v"
      by (auto simp: Insert_def Contains_def)
    with Cons.IH [of "snd (Insert g k idx)"] Cons.prems(2) CallInsert show ?thesis
      by simp
  next
    case (CallRemove g)
    with Cons.prems have "g \<noteq> f" by auto
    with Cons.prems have "Remove g idx f = Some v"
      by (simp add: Remove_def)
    with Cons.IH [of "Remove g idx"] Cons.prems(2) CallRemove show ?thesis
      by simp
  qed
qed

text \<open>
  C8. After a call of \<open>Insert\<close> for a fingerprint \<open>f\<close>, and after any further calls
  among which there is no \<open>Remove\<close> of \<open>f\<close>, a second \<open>Insert\<close> of \<open>f\<close> fails and
  leaves the index as it is, with the height that was recorded first. After
  \<open>Remove\<close> of \<open>f\<close> the index does not contain \<open>f\<close>, whatever was inserted before.
\<close>

theorem uniqueness_index_checked:
  "(CallRemove f \<notin> set cs \<longrightarrow>
      fst (Insert f k' (index_run cs (snd (Insert f k idx)))) = False
      \<and> snd (Insert f k' (index_run cs (snd (Insert f k idx))))
          = index_run cs (snd (Insert f k idx))
      \<and> Contains (index_run cs (snd (Insert f k idx))) f
      \<and> (\<not> Contains idx f \<longrightarrow> index_run cs (snd (Insert f k idx)) f = Some k))
   \<and> \<not> Contains (Remove f (snd (Insert f k idx))) f
   \<and> \<not> Contains (Remove f (index_run cs (snd (Insert f k idx)))) f"
proof (intro conjI impI)
  assume no: "CallRemove f \<notin> set cs"
  obtain v where v: "snd (Insert f k idx) f = Some v"
    by (cases "idx f") (auto simp: Insert_def Contains_def)
  from index_run_keeps [where idx = "snd (Insert f k idx)" and f = f, OF v no]
  have kept: "index_run cs (snd (Insert f k idx)) f = Some v" .
  then show c: "Contains (index_run cs (snd (Insert f k idx))) f"
    by (simp add: Contains_def)
  from c show "fst (Insert f k' (index_run cs (snd (Insert f k idx)))) = False"
    by (simp add: Insert_def)
  from c show "snd (Insert f k' (index_run cs (snd (Insert f k idx))))
          = index_run cs (snd (Insert f k idx))"
    by (simp add: Insert_def)
  assume "\<not> Contains idx f"
  then have "snd (Insert f k idx) f = Some k"
    by (simp add: Insert_def)
  from index_run_keeps [where idx = "snd (Insert f k idx)" and f = f, OF this no]
  show "index_run cs (snd (Insert f k idx)) f = Some k" .
next
  show "\<not> Contains (Remove f (snd (Insert f k idx))) f"
    by (simp add: Contains_def Remove_def)
  show "\<not> Contains (Remove f (index_run cs (snd (Insert f k idx)))) f"
    by (simp add: Contains_def Remove_def)
qed

theorem uniqueness_index_checked_witness:
  "CallRemove 5 \<notin> set [CallInsert 6 20, CallRemove 6, CallInsert 7 30]
   \<and> fst (Insert 5 10 Map.empty) = True
   \<and> fst (Insert 5 40 (index_run [CallInsert 6 20, CallRemove 6, CallInsert 7 30]
                          (snd (Insert 5 10 Map.empty)))) = False
   \<and> index_run [CallInsert 6 20, CallRemove 6, CallInsert 7 30] (snd (Insert 5 10 Map.empty)) 5
       = Some 10
   \<and> \<not> Contains (Remove 5 (snd (Insert 5 10 Map.empty))) 5"
proof -
  have no: "CallRemove 5 \<notin> set [CallInsert 6 20, CallRemove 6, CallInsert 7 30]" by simp
  have fresh: "\<not> Contains Map.empty 5" by (simp add: Contains_def)
  have first: "fst (Insert 5 10 Map.empty) = True" by (simp add: Insert_def Contains_def)
  from uniqueness_index_checked
         [of 5 "[CallInsert 6 20, CallRemove 6, CallInsert 7 30]" 40 10 Map.empty]
       no fresh first
  show ?thesis by blast
qed

end
